theory Spec2Isabelle
  imports Complex_Main "HOL-Library.Sublist" "HOL-Library.AList"
begin

section \<open>Python strings\<close>

text \<open>
  A url is a \<^typ>\<open>string\<close>. \<open>str.lower\<close> is modelled on the ASCII letters; the
  patterns that \<open>detect_type\<close> looks for are ASCII, so only those letters decide a match.
\<close>

definition lower_char :: "char \<Rightarrow> char" where
  "lower_char c =
     (case map_of (zip ''ABCDEFGHIJKLMNOPQRSTUVWXYZ'' ''abcdefghijklmnopqrstuvwxyz'') c of
        Some d \<Rightarrow> d
      | None \<Rightarrow> c)"

definition lower :: "string \<Rightarrow> string" where
  "lower s = map lower_char s"

text \<open>\<open>s.startswith(p)\<close>: the first \<open>len(p)\<close> characters of \<open>s\<close> are \<open>p\<close>.\<close>

definition startswith :: "string \<Rightarrow> string \<Rightarrow> bool" where
  "startswith s p = (take (length p) s = p)"

text \<open>\<open>s.endswith(p)\<close>: the last \<open>len(p)\<close> characters of \<open>s\<close> are \<open>p\<close>.\<close>

definition endswith :: "string \<Rightarrow> string \<Rightarrow> bool" where
  "endswith s p = (length p \<le> length s \<and> drop (length s - length p) s = p)"

text \<open>\<open>p in s\<close>: \<open>p\<close> starts at some position of \<open>s\<close>.\<close>

fun py_in :: "string \<Rightarrow> string \<Rightarrow> bool" where
  "py_in p [] = (p = [])"
| "py_in p (c # cs) = (startswith (c # cs) p \<or> py_in p cs)"

text \<open>\<open>str(n)\<close> for an integer, as an f-string formats it.\<close>

fun str_nat :: "nat \<Rightarrow> string" where
  "str_nat n =
     (if n < 10 then [''0123456789'' ! n]
      else str_nat (n div 10) @ [''0123456789'' ! (n mod 10)])"

declare str_nat.simps [simp del]

definition str_int :: "int \<Rightarrow> string" where
  "str_int i = (if i < 0 then CHR ''-'' # str_nat (nat (- i)) else str_nat (nat i))"

section \<open>models.py\<close>

datatype StreamStatus =
  PENDING | CONNECTING | STREAMING | RECONNECTING | PAUSED | STOPPED | ERROR

datatype StreamType = M3U | M3U8 | HLS | RTMP | YOUTUBE | DIRECT

record StreamSource =
  url :: string
  stream_type :: StreamType
  name :: "string option"

text \<open>\<open>StreamSource.detect_type\<close>\<close>

definition detect_type :: "string \<Rightarrow> StreamSource" where
  "detect_type u =
     (let url_lower = lower u in
      if py_in ''youtube.com'' url_lower \<or> py_in ''youtu.be'' url_lower
        then \<lparr>url = u, stream_type = YOUTUBE, name = None\<rparr>
      else if endswith url_lower ''.m3u''
        then \<lparr>url = u, stream_type = M3U, name = None\<rparr>
      else if endswith url_lower ''.m3u8'' \<or> py_in ''/hls/'' url_lower
        then \<lparr>url = u, stream_type = HLS, name = None\<rparr>
      else if startswith url_lower ''rtmp://'' \<or> startswith url_lower ''rtmps://''
        then \<lparr>url = u, stream_type = RTMP, name = None\<rparr>
      else \<lparr>url = u, stream_type = HLS, name = None\<rparr>)"

text \<open>
  Timestamps (\<open>datetime.utcnow()\<close>) are microseconds since the epoch, the resolution of
  \<open>datetime\<close>; a field that may be \<open>None\<close> is an option.
\<close>

type_synonym datetime = int

record StreamSession =
  session_id :: string
  chat_id :: int
  source :: StreamSource
  status :: StreamStatus
  profile :: string
  created_at :: datetime
  started_at :: "datetime option"
  stopped_at :: "datetime option"
  reconnect_attempts :: int
  last_reconnect_at :: "datetime option"
  last_error :: "string option"
  error_count :: int
  bytes_streamed :: int
  frames_sent :: int

text \<open>
  The \<open>mark_*\<close> methods mutate the session; here they return the updated record. The
  clock reading of \<open>datetime.utcnow()\<close> is the first argument.
\<close>

definition mark_streaming :: "datetime \<Rightarrow> StreamSession \<Rightarrow> StreamSession" where
  "mark_streaming now s =
     s\<lparr>status := STREAMING, started_at := Some now, reconnect_attempts := 0\<rparr>"

definition mark_reconnecting :: "datetime \<Rightarrow> StreamSession \<Rightarrow> StreamSession" where
  "mark_reconnecting now s =
     s\<lparr>status := RECONNECTING, reconnect_attempts := reconnect_attempts s + 1,
       last_reconnect_at := Some now\<rparr>"

definition mark_error :: "string \<Rightarrow> StreamSession \<Rightarrow> StreamSession" where
  "mark_error err s =
     s\<lparr>status := ERROR, last_error := Some err, error_count := error_count s + 1\<rparr>"

definition mark_stopped :: "datetime \<Rightarrow> StreamSession \<Rightarrow> StreamSession" where
  "mark_stopped now s = s\<lparr>status := STOPPED, stopped_at := Some now\<rparr>"

text \<open>
  \<open>StreamSession.duration_seconds\<close>: \<open>timedelta.total_seconds()\<close> divides the
  microseconds by \<open>10^6\<close>; the quotient is kept exact here. A \<open>datetime\<close> is always
  truthy, so \<open>not self.started_at\<close> and \<open>self.stopped_at or ...\<close> test for \<open>None\<close>.
\<close>

definition duration_seconds :: "datetime \<Rightarrow> StreamSession \<Rightarrow> real" where
  "duration_seconds now s =
     (case started_at s of
        None \<Rightarrow> 0
      | Some st \<Rightarrow>
          (let end = (case stopped_at s of Some t \<Rightarrow> t | None \<Rightarrow> now)
           in real_of_int (end - st) / 1000000))"

section \<open>Exceptions\<close>

text \<open>
  An exception is its class and its message \<open>str(e)\<close>. Every class listed derives from
  \<open>Exception\<close>. Cancellation of a task (\<open>asyncio.CancelledError\<close>, a \<open>BaseException\<close>
  that no \<open>except Exception\<close> catches) is not an \<open>exc\<close>: it is the outcome
  \<open>Cancelled\<close> of an await.
\<close>

datatype exc_class =
    StreamConnectionError | StreamSourceError | ChatNotFoundError | PermissionError
  | ReconnectionError
  | ChatAdminRequired | UserNotParticipant | PeerIdInvalid | ChannelPrivate
  | RetryError
  | KeyError | ValueError | AttributeError | RecursionError | OtherException

datatype exc = Exc exc_class string

fun exc_str :: "exc \<Rightarrow> string" where
  "exc_str (Exc c m) = m"

fun exc_cls :: "exc \<Rightarrow> exc_class" where
  "exc_cls (Exc c m) = c"

datatype 'a awaited = Returned 'a | Raised exc | Cancelled

section \<open>Dictionaries\<close>

text \<open>
  A \<open>dict\<close> keyed by session id is an association list in insertion order with distinct
  keys: \<open>d.get(k)\<close> is \<^const>\<open>map_of\<close>, \<open>d[k] = v\<close> is \<^const>\<open>AList.update\<close>. Reading
  or deleting a missing key raises \<open>KeyError\<close>, whose message is the key's \<open>repr\<close>.
\<close>

definition key_error :: "string \<Rightarrow> exc" where
  "key_error k = Exc KeyError ([CHR 0x27] @ k @ [CHR 0x27])"

definition py_contains :: "(string \<times> 'v) list \<Rightarrow> string \<Rightarrow> bool" where
  "py_contains d k = (map_of d k \<noteq> None)"

definition py_getitem :: "(string \<times> 'v) list \<Rightarrow> string \<Rightarrow> exc + 'v" where
  "py_getitem d k = (case map_of d k of None \<Rightarrow> Inl (key_error k) | Some v \<Rightarrow> Inr v)"

definition py_delitem :: "(string \<times> 'v) list \<Rightarrow> string \<Rightarrow> exc + (string \<times> 'v) list" where
  "py_delitem d k =
     (case map_of d k of None \<Rightarrow> Inl (key_error k) | Some v \<Rightarrow> Inr (AList.delete k d))"

section \<open>models.py: transcode settings\<close>

text \<open>
  The dataclass \<open>TranscodeSettings\<close>. Its field \<open>PROFILES\<close> (\<open>init=False\<close>, an empty
  dict in every instance) is read nowhere and is left out of the record.
\<close>

record TranscodeSettings =
  width :: int
  height :: int
  video_bitrate :: string
  audio_bitrate :: string
  fps :: int

text \<open>
  The constructor \<open>TranscodeSettings(width, height, video_bitrate, audio_bitrate, fps)\<close>.
  The \<open>__init__\<close> that \<open>@dataclass\<close> generates stores the fields and then calls
  \<open>__post_init__\<close> (models.py, lines 74 to 80), which evaluates a dict display holding
  three more \<open>TranscodeSettings(...)\<close> calls before it assigns the class attribute. The
  first argument is the number of nested constructor calls the interpreter still allows
  before it raises \<open>RecursionError\<close>.
\<close>

fun TranscodeSettings_init ::
  "nat \<Rightarrow> int \<Rightarrow> int \<Rightarrow> string \<Rightarrow> string \<Rightarrow> int \<Rightarrow> exc + TranscodeSettings" where
  "TranscodeSettings_init 0 w h vb ab f =
     Inl (Exc RecursionError ''maximum recursion depth exceeded'')"
| "TranscodeSettings_init (Suc d) w h vb ab f =
     (case TranscodeSettings_init d 854 480 ''1500k'' ''128k'' 30 of
        Inl x \<Rightarrow> Inl x
      | Inr p480 \<Rightarrow>
          (case TranscodeSettings_init d 1280 720 ''3000k'' ''128k'' 30 of
             Inl x \<Rightarrow> Inl x
           | Inr p720 \<Rightarrow>
               (case TranscodeSettings_init d 1920 1080 ''5000k'' ''128k'' 30 of
                  Inl x \<Rightarrow> Inl x
                | Inr p1080 \<Rightarrow>
                    Inr \<lparr>width = w, height = h, video_bitrate = vb,
                         audio_bitrate = ab, fps = f\<rparr>)))"

text \<open>
  \<open>TranscodeSettings.get_profile\<close>: builds the dict of the three presets with
  \<open>cls(...)\<close>, then returns \<open>profiles.get(profile)\<close>.
\<close>

definition get_profile :: "nat \<Rightarrow> string \<Rightarrow> exc + TranscodeSettings option" where
  "get_profile d p =
     (case TranscodeSettings_init d 854 480 ''1500k'' ''128k'' 30 of
        Inl x \<Rightarrow> Inl x
      | Inr p480 \<Rightarrow>
          (case TranscodeSettings_init d 1280 720 ''3000k'' ''128k'' 30 of
             Inl x \<Rightarrow> Inl x
           | Inr p720 \<Rightarrow>
               (case TranscodeSettings_init d 1920 1080 ''5000k'' ''128k'' 30 of
                  Inl x \<Rightarrow> Inl x
                | Inr p1080 \<Rightarrow>
                    Inr (map_of [(''480p'', p480), (''720p'', p720), (''1080p'', p1080)] p))))"

section \<open>config.py\<close>

datatype TranscodeProfile = AUTO | P480 | P720 | P1080

text \<open>\<open>profile.value\<close>\<close>

fun profile_value :: "TranscodeProfile \<Rightarrow> string" where
  "profile_value AUTO = ''auto''"
| "profile_value P480 = ''480p''"
| "profile_value P720 = ''720p''"
| "profile_value P1080 = ''1080p''"

text \<open>The fields of \<open>Settings\<close> that the streaming core reads.\<close>

record Settings =
  ffmpeg_path :: string
  ffmpeg_threads :: int
  reconnect_enabled :: bool
  reconnect_min_delay :: int
  reconnect_max_delay :: int
  reconnect_max_attempts :: int
  reconnect_timeout :: int

section \<open>ffmpeg.py: the command builder\<close>

text \<open>
  \<open>int(s)\<close> on a decimal literal with an optional sign; anything else is a
  \<open>ValueError\<close>.
\<close>

fun digits_val :: "string \<Rightarrow> nat \<Rightarrow> nat option" where
  "digits_val [] acc = Some acc"
| "digits_val (c # cs) acc =
     (case map_of (zip ''0123456789'' [0, 1, 2, 3, 4, 5, 6, 7, 8, 9]) c of
        None \<Rightarrow> None
      | Some v \<Rightarrow> digits_val cs (10 * acc + v))"

definition py_int :: "string \<Rightarrow> exc + int" where
  "py_int s =
     (let body = (if s \<noteq> [] \<and> (hd s = CHR ''-'' \<or> hd s = CHR ''+'') then tl s else s);
          bad = Inl (Exc ValueError
                      (''invalid literal for int() with base 10: '' @
                       [CHR 0x27] @ s @ [CHR 0x27]))
      in if body = [] then bad
         else (case digits_val body 0 of
                 None \<Rightarrow> bad
               | Some v \<Rightarrow> Inr (if hd s = CHR ''-'' then - int v else int v)))"

text \<open>\<open>FFmpegWrapper._build_input_args\<close>\<close>

definition build_input_args :: "StreamSource \<Rightarrow> string list" where
  "build_input_args src =
     (if stream_type src = HLS \<or> stream_type src = M3U8 \<or> stream_type src = M3U
        then [''-reconnect'', ''1'', ''-reconnect_streamed'', ''1'',
              ''-reconnect_delay_max'', ''5'']
        else [])
     @ (if stream_type src = RTMP then [''-rtmp_live'', ''live''] else [])
     @ [''-analyzeduration'', ''5000000'', ''-probesize'', ''5000000'',
        ''-fflags'', ''+genpts+discardcorrupt'', ''-i'', url src]"

text \<open>
  \<open>FFmpegWrapper._build_video_args\<close>. A dataclass instance is truthy, so
  \<open>if transcode_settings:\<close> tests for \<open>None\<close>.
\<close>

definition build_video_args :: "nat \<Rightarrow> TranscodeProfile \<Rightarrow> exc + string list" where
  "build_video_args d prof =
     (case get_profile d (profile_value prof) of
        Inl x \<Rightarrow> Inl x
      | Inr None \<Rightarrow> Inr [''-c:v'', ''copy'']
      | Inr (Some ts) \<Rightarrow>
          (case py_int (butlast (video_bitrate ts)) of
             Inl x \<Rightarrow> Inl x
           | Inr b \<Rightarrow>
               Inr [''-c:v'', ''libx264'', ''-preset'', ''ultrafast'', ''-tune'', ''zerolatency'',
                    ''-vf'', ''scale='' @ str_int (width ts) @ '':'' @ str_int (height ts),
                    ''-b:v'', video_bitrate ts,
                    ''-maxrate'', video_bitrate ts,
                    ''-bufsize'', str_int (b * 2) @ ''k'',
                    ''-r'', str_int (fps ts),
                    ''-g'', str_int (fps ts * 2),
                    ''-pix_fmt'', ''yuv420p'']))"

text \<open>\<open>FFmpegWrapper._build_audio_args\<close>\<close>

definition build_audio_args :: "nat \<Rightarrow> TranscodeProfile \<Rightarrow> exc + string list" where
  "build_audio_args d prof =
     (case get_profile d (profile_value prof) of
        Inl x \<Rightarrow> Inl x
      | Inr None \<Rightarrow> Inr [''-c:a'', ''copy'']
      | Inr (Some ts) \<Rightarrow>
          Inr [''-c:a'', ''aac'', ''-b:a'', audio_bitrate ts, ''-ar'', ''48000'', ''-ac'', ''2''])"

text \<open>\<open>FFmpegWrapper._build_output_args\<close>; \<open>output\<close> defaults to \<open>pipe:1\<close>.\<close>

definition build_output_args :: "string \<Rightarrow> string list" where
  "build_output_args output = [''-f'', ''mpegts'', ''-flush_packets'', ''1'', output]"

text \<open>\<open>FFmpegWrapper.build_command\<close>\<close>

definition build_command ::
  "nat \<Rightarrow> Settings \<Rightarrow> StreamSource \<Rightarrow> TranscodeProfile \<Rightarrow> string \<Rightarrow> exc + string list" where
  "build_command d cfg src prof output =
     (let cmd = [ffmpeg_path cfg] @
                [''-y'', ''-hide_banner'', ''-loglevel'', ''warning'',
                 ''-threads'', str_int (ffmpeg_threads cfg)];
          cmd1 = cmd @ build_input_args src
      in case build_video_args d prof of
           Inl x \<Rightarrow> Inl x
         | Inr v \<Rightarrow>
             (case build_audio_args d prof of
                Inl x \<Rightarrow> Inl x
              | Inr a \<Rightarrow> Inr (cmd1 @ v @ a @ build_output_args output)))"

section \<open>streamer.py: the session registry\<close>

text \<open>
  The collaborators of \<open>TelegramStreamer\<close> (the chat lookup of the client, the call
  transport, \<open>yt-dlp\<close>, \<open>uuid4\<close>, the clock, the transcoder subprocess) are outside the
  repository. Their answers come from an environment; the calls made to them are
  returned in order as a list of effects.
\<close>

datatype effect =
    GetChat string
  | YtDlp string
  | Play int string
  | LeaveCall int
  | PauseStream int
  | ResumeStream int
  | TaskCancel nat
  | ProcTerminate nat
  | ProcKill nat
  | TgCallsStop
  | ClientStop

record env =
  get_chat :: "string \<Rightarrow> exc + int"
  uuid4 :: string
  resolve_youtube_url :: "string \<Rightarrow> exc + string"
  tg_play :: "int \<Rightarrow> string \<Rightarrow> exc option"
  tg_leave_call :: "int \<Rightarrow> exc option"
  tg_pause_stream :: "int \<Rightarrow> exc option"
  tg_resume_stream :: "int \<Rightarrow> exc option"
  utcnow :: datetime
  utcnow_later :: datetime
  wait_times_out :: "nat \<Rightarrow> bool"

text \<open>
  \<open>FFmpegWrapper\<close> as the registry holds it: the running flag and the pid of the
  subprocess, if one was started.
\<close>

record FFmpegWrapper =
  fw_running :: bool
  fw_process :: "nat option"

text \<open>
  \<open>FFmpegWrapper.stop\<close>: clear the running flag; terminate the process, kill it when
  the wait of five seconds times out, and drop the handle. \<open>ProcessLookupError\<close> is
  caught inside.
\<close>

definition ffmpeg_stop :: "env \<Rightarrow> FFmpegWrapper \<Rightarrow> FFmpegWrapper \<times> effect list" where
  "ffmpeg_stop e w =
     (case fw_process w of
        None \<Rightarrow> (w\<lparr>fw_running := False\<rparr>, [])
      | Some pid \<Rightarrow>
          (w\<lparr>fw_running := False, fw_process := None\<rparr>,
           ProcTerminate pid # (if wait_times_out e pid then [ProcKill pid] else [])))"

text \<open>
  The state of a \<open>TelegramStreamer\<close>. \<open>client\<close> and \<open>tgcalls\<close> say whether the
  attribute is set (not \<open>None\<close>). A reconnect task is known by a number.
\<close>

record TelegramStreamer =
  client :: bool
  tgcalls :: bool
  sessions :: "(string \<times> StreamSession) list"
  ffmpeg_processes :: "(string \<times> FFmpegWrapper) list"
  reconnect_tasks :: "(string \<times> nat) list"
  started :: bool

datatype chat_identifier = ChatInt int | ChatStr string

text \<open>
  \<open>TelegramStreamer._resolve_chat_id\<close>. The check of the client is outside the
  \<open>try\<close>; inside, \<open>PeerIdInvalid\<close> and \<open>ChannelPrivate\<close> get one message and every
  other exception another, all as \<open>ChatNotFoundError\<close>.
\<close>

definition resolve_chat_id ::
  "env \<Rightarrow> TelegramStreamer \<Rightarrow> chat_identifier \<Rightarrow> (exc + int) \<times> effect list" where
  "resolve_chat_id e st ci =
     (if \<not> client st then (Inl (Exc StreamConnectionError ''Client not started''), [])
      else case ci of
        ChatInt n \<Rightarrow> (Inr n, [])
      | ChatStr s \<Rightarrow>
          (case get_chat e s of
             Inr n \<Rightarrow> (Inr n, [GetChat s])
           | Inl x \<Rightarrow>
               (if exc_cls x = PeerIdInvalid \<or> exc_cls x = ChannelPrivate
                  then (Inl (Exc ChatNotFoundError (''Chat not found: '' @ s)), [GetChat s])
                  else (Inl (Exc ChatNotFoundError (''Error resolving chat: '' @ exc_str x)),
                        [GetChat s]))))"

text \<open>\<open>TelegramStreamer._prepare_stream_url\<close>\<close>

definition prepare_stream_url :: "env \<Rightarrow> StreamSource \<Rightarrow> (exc + string) \<times> effect list" where
  "prepare_stream_url e src =
     (if stream_type src = YOUTUBE then (resolve_youtube_url e (url src), [YtDlp (url src)])
      else (Inr (url src), []))"

text \<open>The occupancy test of \<open>start_stream\<close> (lines 215 to 220) on one session.\<close>

definition occupies :: "int \<Rightarrow> StreamSession \<Rightarrow> bool" where
  "occupies cid s =
     (chat_id s = cid \<and>
      (status s = STREAMING \<or> status s = CONNECTING \<or> status s = RECONNECTING))"

text \<open>
  The two \<open>except\<close> clauses of \<open>start_stream\<close>: mark the session with \<open>str(e)\<close>, then
  raise \<open>PermissionError\<close> for the two permission classes and \<open>StreamConnectionError\<close>
  for any other exception.
\<close>

definition start_failed :: "exc \<Rightarrow> exc" where
  "start_failed x =
     (if exc_cls x = ChatAdminRequired \<or> exc_cls x = UserNotParticipant
        then Exc PermissionError
               (''Insufficient permissions to join video chat. '' @
                ''Ensure the account/bot has permission to manage video chats.'')
        else Exc StreamConnectionError (''Failed to start stream: '' @ exc_str x))"

text \<open>The message of the \<open>AttributeError\<close> for an attribute read on \<open>None\<close>.\<close>

definition none_has_no_attribute :: "string \<Rightarrow> string" where
  "none_has_no_attribute a =
     [CHR 0x27] @ ''NoneType'' @ [CHR 0x27] @ '' object has no attribute '' @
     [CHR 0x27] @ a @ [CHR 0x27]"

text \<open>
  \<open>TelegramStreamer.start_stream\<close>. The result is the raised exception or the session
  returned. \<open>video_quality\<close> is computed by the source and used nowhere; the
  \<open>MediaStream\<close> is the prepared url. With \<open>tgcalls\<close> unset the call
  \<open>self._tgcalls.play\<close> is an \<open>AttributeError\<close> inside the \<open>try\<close>.
\<close>

definition start_stream ::
  "env \<Rightarrow> TelegramStreamer \<Rightarrow> chat_identifier \<Rightarrow> string \<Rightarrow> TranscodeProfile
     \<Rightarrow> (exc + StreamSession) \<times> TelegramStreamer \<times> effect list" where
  "start_stream e st ci source_url prof =
     (if \<not> started st then (Inl (Exc StreamConnectionError ''Streamer not started''), st, [])
      else case resolve_chat_id e st ci of
        (Inl x, fx) \<Rightarrow> (Inl x, st, fx)
      | (Inr cid, fx) \<Rightarrow>
          if list_ex (\<lambda>kv. occupies cid (snd kv)) (sessions st)
            then (Inl (Exc StreamConnectionError (''Already streaming to chat '' @ str_int cid)),
                  st, fx)
          else
            let sid = take 8 (uuid4 e);
                src = detect_type source_url;
                session = \<lparr>session_id = sid, chat_id = cid, source = src, status = PENDING,
                           profile = profile_value prof, created_at = utcnow e,
                           started_at = None, stopped_at = None, reconnect_attempts = 0,
                           last_reconnect_at = None, last_error = None, error_count = 0,
                           bytes_streamed = 0, frames_sent = 0\<rparr>;
                connecting = session\<lparr>status := CONNECTING\<rparr>;
                put = (\<lambda>s. st\<lparr>sessions := AList.update sid s (sessions st)\<rparr>)
            in case prepare_stream_url e src of
                 (Inl x, fx1) \<Rightarrow>
                   (Inl (start_failed x), put (mark_error (exc_str x) connecting), fx @ fx1)
               | (Inr stream_url, fx1) \<Rightarrow>
                   (if \<not> tgcalls st
                      then (Inl (start_failed
                                  (Exc AttributeError (none_has_no_attribute ''play''))),
                            put (mark_error (none_has_no_attribute ''play'') connecting),
                            fx @ fx1)
                    else case tg_play e cid stream_url of
                      Some x \<Rightarrow>
                        (Inl (start_failed x), put (mark_error (exc_str x) connecting),
                         fx @ fx1 @ [Play cid stream_url])
                    | None \<Rightarrow>
                        (let streaming = mark_streaming (utcnow_later e) connecting
                         in (Inr streaming, put streaming,
                             fx @ fx1 @ [Play cid stream_url]))))"

text \<open>
  \<open>TelegramStreamer.stop_stream\<close>, in three steps and then the whole. The result is
  the raised exception or the returned flag.
\<close>

text \<open>Lines 306 to 309: cancel the reconnect task of the session, if one is recorded.\<close>

definition cancel_reconnect_task ::
  "TelegramStreamer \<Rightarrow> string \<Rightarrow> (exc + unit) \<times> TelegramStreamer \<times> effect list" where
  "cancel_reconnect_task st sid =
     (if py_contains (reconnect_tasks st) sid then
        (case py_getitem (reconnect_tasks st) sid of
           Inl x \<Rightarrow> (Inl x, st, [])
         | Inr task \<Rightarrow>
             (case py_delitem (reconnect_tasks st) sid of
                Inl x \<Rightarrow> (Inl x, st, [TaskCancel task])
              | Inr d \<Rightarrow> (Inr (), st\<lparr>reconnect_tasks := d\<rparr>, [TaskCancel task])))
      else (Inr (), st, []))"

text \<open>Lines 311 to 314: stop the transcoder of the session, if one is recorded.\<close>

definition stop_ffmpeg_process ::
  "env \<Rightarrow> TelegramStreamer \<Rightarrow> string \<Rightarrow> (exc + unit) \<times> TelegramStreamer \<times> effect list" where
  "stop_ffmpeg_process e st sid =
     (if py_contains (ffmpeg_processes st) sid then
        (case py_getitem (ffmpeg_processes st) sid of
           Inl x \<Rightarrow> (Inl x, st, [])
         | Inr w \<Rightarrow>
             (case py_delitem (ffmpeg_processes st) sid of
                Inl x \<Rightarrow> (Inl x, st, snd (ffmpeg_stop e w))
              | Inr d \<Rightarrow> (Inr (), st\<lparr>ffmpeg_processes := d\<rparr>, snd (ffmpeg_stop e w))))
      else (Inr (), st, []))"

text \<open>
  Lines 316 to 325: leave the video chat when the transport is set; an exception of
  \<open>leave_call\<close> is logged and dropped.
\<close>

definition leave_video_chat :: "TelegramStreamer \<Rightarrow> int \<Rightarrow> effect list" where
  "leave_video_chat st cid = (if tgcalls st then [LeaveCall cid] else [])"

definition stop_stream ::
  "env \<Rightarrow> TelegramStreamer \<Rightarrow> string \<Rightarrow> (exc + bool) \<times> TelegramStreamer \<times> effect list" where
  "stop_stream e st sid =
     (case map_of (sessions st) sid of
        None \<Rightarrow> (Inr False, st, [])
      | Some session \<Rightarrow>
          (case cancel_reconnect_task st sid of
             (Inl x, st1, fx1) \<Rightarrow> (Inl x, st1, fx1)
           | (Inr _, st1, fx1) \<Rightarrow>
               (case stop_ffmpeg_process e st1 sid of
                  (Inl x, st2, fx2) \<Rightarrow> (Inl x, st2, fx1 @ fx2)
                | (Inr _, st2, fx2) \<Rightarrow>
                    (Inr True,
                     st2\<lparr>sessions :=
                           AList.update sid (mark_stopped (utcnow e) session) (sessions st2)\<rparr>,
                     fx1 @ fx2 @ leave_video_chat st2 (chat_id session)))))"

text \<open>\<open>TelegramStreamer.pause_stream\<close>\<close>

definition pause_stream ::
  "env \<Rightarrow> TelegramStreamer \<Rightarrow> string \<Rightarrow> bool \<times> TelegramStreamer \<times> effect list" where
  "pause_stream e st sid =
     (case map_of (sessions st) sid of
        None \<Rightarrow> (False, st, [])
      | Some session \<Rightarrow>
          if status session \<noteq> STREAMING then (False, st, [])
          else if tgcalls st then
            (case tg_pause_stream e (chat_id session) of
               None \<Rightarrow>
                 (True,
                  st\<lparr>sessions := AList.update sid (session\<lparr>status := PAUSED\<rparr>) (sessions st)\<rparr>,
                  [PauseStream (chat_id session)])
             | Some x \<Rightarrow> (False, st, [PauseStream (chat_id session)]))
          else (False, st, []))"

text \<open>\<open>TelegramStreamer.resume_stream\<close>\<close>

definition resume_stream ::
  "env \<Rightarrow> TelegramStreamer \<Rightarrow> string \<Rightarrow> bool \<times> TelegramStreamer \<times> effect list" where
  "resume_stream e st sid =
     (case map_of (sessions st) sid of
        None \<Rightarrow> (False, st, [])
      | Some session \<Rightarrow>
          if status session \<noteq> PAUSED then (False, st, [])
          else if tgcalls st then
            (case tg_resume_stream e (chat_id session) of
               None \<Rightarrow>
                 (True,
                  st\<lparr>sessions := AList.update sid (session\<lparr>status := STREAMING\<rparr>) (sessions st)\<rparr>,
                  [ResumeStream (chat_id session)])
             | Some x \<Rightarrow> (False, st, [ResumeStream (chat_id session)]))
          else (False, st, []))"

text \<open>\<open>TelegramStreamer.get_session\<close>\<close>

definition get_session :: "TelegramStreamer \<Rightarrow> string \<Rightarrow> StreamSession option" where
  "get_session st sid = map_of (sessions st) sid"

text \<open>
  \<open>TelegramStreamer.stop\<close>: stop every session in the order of the dict, cancel and
  forget the reconnect tasks that are left, stop the transport and the client (their
  exceptions are logged and dropped), and clear \<open>_started\<close>. The sessions stay in the
  registry.
\<close>

fun stop_all ::
  "env \<Rightarrow> string list \<Rightarrow> TelegramStreamer \<Rightarrow> effect list
     \<Rightarrow> (exc + unit) \<times> TelegramStreamer \<times> effect list" where
  "stop_all e [] st fx = (Inr (), st, fx)"
| "stop_all e (sid # sids) st fx =
     (case stop_stream e st sid of
        (Inl x, st1, fx1) \<Rightarrow> (Inl x, st1, fx @ fx1)
      | (Inr _, st1, fx1) \<Rightarrow> stop_all e sids st1 (fx @ fx1))"

definition streamer_stop ::
  "env \<Rightarrow> TelegramStreamer \<Rightarrow> (exc + unit) \<times> TelegramStreamer \<times> effect list" where
  "streamer_stop e st =
     (case stop_all e (map fst (sessions st)) st [] of
        (Inl x, st1, fx1) \<Rightarrow> (Inl x, st1, fx1)
      | (Inr _, st1, fx1) \<Rightarrow>
          (Inr (),
           st1\<lparr>reconnect_tasks := [], tgcalls := False, client := False, started := False\<rparr>,
           fx1 @ map (\<lambda>kv. TaskCancel (snd kv)) (reconnect_tasks st1)
               @ (if tgcalls st1 then [TgCallsStop] else [])
               @ (if client st1 then [ClientStop] else [])))"

section \<open>reconnection.py: the reconnection manager\<close>

text \<open>
  What the retry loop meets while it runs, indexed by the attempt number (from 1): the
  flag \<open>self._active\<close> as the attempt reads it, the clock, the outcome of awaiting the
  injected \<open>start_stream_func\<close> on its three arguments, tenacity's
  \<open>seconds_since_start\<close> after the attempt, and whether the task is cancelled during
  the backoff sleep that follows the attempt. Index 0 of the clock is the reading of
  \<open>mark_reconnecting\<close>.
\<close>

record loop_env =
  active_at :: "nat \<Rightarrow> bool"
  now_at :: "nat \<Rightarrow> datetime"
  start_stream_func :: "nat \<Rightarrow> int \<Rightarrow> string \<Rightarrow> string \<Rightarrow> unit awaited"
  now_streaming :: "nat \<Rightarrow> datetime"
  seconds_since_start :: "nat \<Rightarrow> real"
  sleep_cancelled :: "nat \<Rightarrow> bool"

type_synonym start_call = "int \<times> string \<times> string"

text \<open>
  \<open>AsyncRetrying\<close> is the tenacity library's, outside the repository; its documented
  behaviour is written into the loop below. How the \<open>async for\<close> over it ends: the
  body completed, an exception left it (with \<open>reraise=True\<close> the last exception of
  the body itself, also when the stop condition ends the retries), or the task was
  cancelled.
\<close>

datatype loop_exit = Succeeded | Failed exc | Interrupted

text \<open>\<open>retry_if_exception_type((StreamConnectionError, StreamSourceError))\<close>\<close>

definition retry_if_exception_type :: "exc \<Rightarrow> bool" where
  "retry_if_exception_type x =
     (exc_cls x = StreamConnectionError \<or> exc_cls x = StreamSourceError)"

text \<open>\<open>stop_after_attempt(max_attempts) | stop_after_delay(reconnect_timeout)\<close>\<close>

definition stop_retrying :: "Settings \<Rightarrow> loop_env \<Rightarrow> nat \<Rightarrow> bool" where
  "stop_retrying cfg env n =
     (reconnect_max_attempts cfg \<le> int n \<or>
      real_of_int (reconnect_timeout cfg) \<le> seconds_since_start env n)"

text \<open>
  The attempts of \<open>_reconnect_loop\<close> (lines 96 to 134) from attempt \<open>n\<close> on, with the
  session as it stands and the calls of \<open>start_stream_func\<close> made so far. An attempt
  first records its number and the time on the session (lines 113 and 114), then awaits
  \<open>start_stream_func\<close>. An exception that is not retried, or one met when the stop
  condition holds, leaves the loop; otherwise the loop sleeps and tries again.
\<close>

definition begin_attempt :: "loop_env \<Rightarrow> nat \<Rightarrow> StreamSession \<Rightarrow> StreamSession" where
  "begin_attempt env n s =
     s\<lparr>reconnect_attempts := int n, last_reconnect_at := Some (now_at env n)\<rparr>"

function attempts ::
  "Settings \<Rightarrow> loop_env \<Rightarrow> nat \<Rightarrow> StreamSession \<Rightarrow> start_call list
     \<Rightarrow> loop_exit \<times> StreamSession \<times> start_call list" where
  "attempts cfg env n s calls =
     (if \<not> active_at env n
        then (Failed (Exc ReconnectionError ''Reconnection manager stopped''), s, calls)
      else
        (case start_stream_func env n (chat_id s) (url (source s)) (profile s) of
           Cancelled \<Rightarrow>
             (Interrupted, begin_attempt env n s,
              calls @ [(chat_id s, url (source s), profile s)])
         | Returned r \<Rightarrow>
             (Succeeded, mark_streaming (now_streaming env n) (begin_attempt env n s),
              calls @ [(chat_id s, url (source s), profile s)])
         | Raised x \<Rightarrow>
             if \<not> retry_if_exception_type x then
               (Failed x, begin_attempt env n s,
                calls @ [(chat_id s, url (source s), profile s)])
             else if stop_retrying cfg env n then
               (Failed x, begin_attempt env n s,
                calls @ [(chat_id s, url (source s), profile s)])
             else if sleep_cancelled env n then
               (Interrupted, begin_attempt env n s,
                calls @ [(chat_id s, url (source s), profile s)])
             else
               attempts cfg env (Suc n) (begin_attempt env n s)
                 (calls @ [(chat_id s, url (source s), profile s)])))"
  by pat_completeness auto
termination
  by (relation "measure (\<lambda>(cfg, env, n, s, calls). nat (reconnect_max_attempts cfg) - n)")
     (auto simp: stop_retrying_def)

declare attempts.simps [simp del]

text \<open>
  The \<open>except\<close> clauses of \<open>_reconnect_loop\<close> (lines 136 to 155). A cancelled task
  passes them all.
\<close>

fun loop_except :: "loop_exit \<Rightarrow> StreamSession \<Rightarrow> StreamSession" where
  "loop_except Succeeded s = s"
| "loop_except Interrupted s = s"
| "loop_except (Failed x) s =
     (if exc_cls x = RetryError then mark_error ''Reconnection failed after all attempts'' s
      else if exc_cls x = ReconnectionError then s
      else mark_error (exc_str x) s)"

text \<open>
  A reconnect task is the coroutine \<open>_reconnect_loop(session)\<close>: the id of its session
  and whether it has not run yet or is suspended at an await inside the \<open>try\<close>.
\<close>

datatype coro_state = Created | Suspended

record reconnect_task =
  coro_session_id :: string
  coro_state :: coro_state

record ReconnectionManager =
  rm_reconnect_tasks :: "(string \<times> reconnect_task) list"
  rm_active :: bool

text \<open>The \<open>finally\<close> clause of \<open>_reconnect_loop\<close> (lines 156 to 159).\<close>

definition loop_finally :: "ReconnectionManager \<Rightarrow> string \<Rightarrow> ReconnectionManager" where
  "loop_finally mgr sid =
     (if py_contains (rm_reconnect_tasks mgr) sid
        then mgr\<lparr>rm_reconnect_tasks := AList.delete sid (rm_reconnect_tasks mgr)\<rparr>
        else mgr)"

text \<open>
  \<open>ReconnectionManager._reconnect_loop\<close>, run to its end: how it ended, the manager,
  the session, and the calls of \<open>start_stream_func\<close> in order.
\<close>

definition reconnect_loop ::
  "Settings \<Rightarrow> loop_env \<Rightarrow> ReconnectionManager \<Rightarrow> StreamSession
     \<Rightarrow> loop_exit \<times> ReconnectionManager \<times> StreamSession \<times> start_call list" where
  "reconnect_loop cfg env mgr session =
     (case attempts cfg env 1 (mark_reconnecting (now_at env 0) session) [] of
        (ex, s, calls) \<Rightarrow>
          (ex, loop_finally mgr (session_id session), loop_except ex s, calls))"

text \<open>
  \<open>ReconnectionManager.handle_disconnect\<close>. \<open>error or "Disconnected"\<close> takes the
  default for \<open>None\<close> and for the empty string.
\<close>

definition handle_disconnect ::
  "Settings \<Rightarrow> ReconnectionManager \<Rightarrow> StreamSession \<Rightarrow> string option
     \<Rightarrow> ReconnectionManager \<times> StreamSession" where
  "handle_disconnect cfg mgr session error =
     (if \<not> reconnect_enabled cfg then
        (mgr, mark_error (case error of
                            None \<Rightarrow> ''Disconnected''
                          | Some m \<Rightarrow> if m = [] then ''Disconnected'' else m) session)
      else if reconnect_max_attempts cfg \<le> reconnect_attempts session then
        (mgr, mark_error ''Max reconnection attempts reached'' session)
      else if \<not> py_contains (rm_reconnect_tasks mgr) (session_id session) then
        (mgr\<lparr>rm_reconnect_tasks :=
               AList.update (session_id session)
                 \<lparr>coro_session_id = session_id session, coro_state = Created\<rparr>
                 (rm_reconnect_tasks mgr)\<rparr>,
         session)
      else (mgr, session))"

text \<open>
  The event loop gives a created task its first step: the coroutine enters the \<open>try\<close>
  and suspends at its first await.
\<close>

definition task_first_step :: "ReconnectionManager \<Rightarrow> string \<Rightarrow> ReconnectionManager" where
  "task_first_step mgr sid =
     mgr\<lparr>rm_reconnect_tasks :=
           map (\<lambda>kv. if fst kv = sid then (fst kv, (snd kv)\<lparr>coro_state := Suspended\<rparr>) else kv)
             (rm_reconnect_tasks mgr)\<rparr>"

text \<open>
  \<open>task.cancel()\<close> followed by \<open>await task\<close>: \<open>CancelledError\<close> is thrown into the
  coroutine where it is suspended. A coroutine that never ran executes nothing; one
  suspended inside the \<open>try\<close> of \<open>_reconnect_loop\<close> passes the \<open>except\<close> clauses and
  runs the \<open>finally\<close> clause. The awaiting caller catches the \<open>CancelledError\<close>.
\<close>

definition await_cancelled :: "ReconnectionManager \<Rightarrow> reconnect_task \<Rightarrow> ReconnectionManager" where
  "await_cancelled mgr t =
     (case coro_state t of
        Created \<Rightarrow> mgr
      | Suspended \<Rightarrow> loop_finally mgr (coro_session_id t))"

text \<open>\<open>ReconnectionManager.cancel_reconnection\<close>\<close>

definition cancel_reconnection ::
  "ReconnectionManager \<Rightarrow> string \<Rightarrow> (exc + bool) \<times> ReconnectionManager" where
  "cancel_reconnection mgr sid =
     (if py_contains (rm_reconnect_tasks mgr) sid then
        (case py_getitem (rm_reconnect_tasks mgr) sid of
           Inl x \<Rightarrow> (Inl x, mgr)
         | Inr t \<Rightarrow>
             (let mgr1 = await_cancelled mgr t
              in case py_delitem (rm_reconnect_tasks mgr1) sid of
                   Inl x \<Rightarrow> (Inl x, mgr1)
                 | Inr d \<Rightarrow> (Inr True, mgr1\<lparr>rm_reconnect_tasks := d\<rparr>)))
      else (Inr False, mgr))"

text \<open>\<open>ReconnectionManager.is_reconnecting\<close>\<close>

definition is_reconnecting :: "ReconnectionManager \<Rightarrow> string \<Rightarrow> bool" where
  "is_reconnecting mgr sid = py_contains (rm_reconnect_tasks mgr) sid"

section \<open>The manager wired to the registry\<close>

text \<open>The message of the \<open>AttributeError\<close> for an attribute read on a \<open>str\<close>.\<close>

definition str_has_no_attribute :: "string \<Rightarrow> string" where
  "str_has_no_attribute a =
     [CHR 0x27] @ ''str'' @ [CHR 0x27] @ '' object has no attribute '' @
     [CHR 0x27] @ a @ [CHR 0x27]"

text \<open>
  \<open>TelegramStreamer.start_stream\<close> as \<open>_reconnect_loop\<close> calls it (reconnection.py,
  lines 123 to 127): the third argument is \<open>session.profile\<close>, which the registry
  stored as \<open>profile.value\<close>, a plain \<open>str\<close>. Lines 208 to 223 do not read the
  profile. Line 232 reads \<open>profile.value\<close>, which a \<open>str\<close> does not have: the
  \<open>AttributeError\<close> leaves the function outside the \<open>try\<close> and before the new
  session is stored (line 234).
\<close>

definition start_stream_str_profile ::
  "env \<Rightarrow> TelegramStreamer \<Rightarrow> chat_identifier \<Rightarrow> string \<Rightarrow> string
     \<Rightarrow> (exc + StreamSession) \<times> TelegramStreamer \<times> effect list" where
  "start_stream_str_profile e st ci source_url p =
     (if \<not> started st then (Inl (Exc StreamConnectionError ''Streamer not started''), st, [])
      else case resolve_chat_id e st ci of
        (Inl x, fx) \<Rightarrow> (Inl x, st, fx)
      | (Inr cid, fx) \<Rightarrow>
          if list_ex (\<lambda>kv. occupies cid (snd kv)) (sessions st)
            then (Inl (Exc StreamConnectionError (''Already streaming to chat '' @ str_int cid)),
                  st, fx)
          else (Inl (Exc AttributeError (str_has_no_attribute ''value'')), st, fx))"

text \<open>
  The registry holds the very session object that the loop mutates. While attempt \<open>n\<close>
  awaits the start function, the session held under \<open>k\<close> carries the marks of
  \<open>mark_reconnecting\<close> and of lines 113 and 114.
\<close>

definition registry_at_attempt ::
  "loop_env \<Rightarrow> TelegramStreamer \<Rightarrow> string \<Rightarrow> nat \<Rightarrow> TelegramStreamer" where
  "registry_at_attempt env st k n =
     st\<lparr>sessions :=
          AList.map_entry k (\<lambda>s. begin_attempt env n (mark_reconnecting (now_at env 0) s))
            (sessions st)\<rparr>"

text \<open>
  The start function of a manager constructed as
  \<open>ReconnectionManager(streamer.start_stream, streamer.stop_stream)\<close>, for the loop of
  the session that the registry \<open>st\<close> holds under \<open>k\<close>: the awaited call returns or
  raises as \<open>start_stream\<close> does. No call changes the registry, since none stores a
  session.
\<close>

definition registry_start_stream_func ::
  "env \<Rightarrow> loop_env \<Rightarrow> TelegramStreamer \<Rightarrow> string
     \<Rightarrow> nat \<Rightarrow> int \<Rightarrow> string \<Rightarrow> string \<Rightarrow> unit awaited" where
  "registry_start_stream_func e env st k n c u p =
     (case fst (start_stream_str_profile e (registry_at_attempt env st k n) (ChatInt c) u p) of
        Inl x \<Rightarrow> Raised x
      | Inr r \<Rightarrow> Returned ())"

definition wired_to_registry ::
  "env \<Rightarrow> TelegramStreamer \<Rightarrow> string \<Rightarrow> loop_env \<Rightarrow> loop_env" where
  "wired_to_registry e st k env =
     env\<lparr>start_stream_func := registry_start_stream_func e env st k\<rparr>"

section \<open>Example states\<close>

text \<open>
  A started streamer with no session, and collaborators that answer every call without
  an error: chat lookups give chat 7, the clock reads 1 s and then 2 s.
\<close>

definition streamer0 :: TelegramStreamer where
  "streamer0 =
     \<lparr>client = True, tgcalls = True, sessions = [], ffmpeg_processes = [],
      reconnect_tasks = [], started = True\<rparr>"

definition env0 :: env where
  "env0 =
     \<lparr>get_chat = (\<lambda>s. Inr 7),
      uuid4 = ''1b9d6bcd-bbfd-4b2d-9b5d-ab8dfbbd4bed'',
      resolve_youtube_url = (\<lambda>u. Inr u),
      tg_play = (\<lambda>c u. None),
      tg_leave_call = (\<lambda>c. None),
      tg_pause_stream = (\<lambda>c. None),
      tg_resume_stream = (\<lambda>c. None),
      utcnow = 1000000,
      utcnow_later = 2000000,
      wait_times_out = (\<lambda>p. False)\<rparr>"

text \<open>The same collaborators three seconds later.\<close>

definition env1 :: env where
  "env1 = env0\<lparr>utcnow := 5000000, utcnow_later := 6000000\<rparr>"

text \<open>The session that \<open>start_stream\<close> creates from \<open>streamer0\<close> for chat 7.\<close>

definition session0 :: StreamSession where
  "session0 =
     \<lparr>session_id = ''1b9d6bcd'', chat_id = 7,
      source = \<lparr>url = ''https://x/live/a.m3u8'', stream_type = HLS, name = None\<rparr>,
      status = STREAMING, profile = ''720p'', created_at = 1000000,
      started_at = Some 2000000, stopped_at = None, reconnect_attempts = 0,
      last_reconnect_at = None, last_error = None, error_count = 0,
      bytes_streamed = 0, frames_sent = 0\<rparr>"

definition streamer1 :: TelegramStreamer where
  "streamer1 = streamer0\<lparr>sessions := [(''1b9d6bcd'', session0)]\<rparr>"

text \<open>The collaborators at 8 s.\<close>

definition env2 :: env where
  "env2 = env0\<lparr>utcnow := 8000000, utcnow_later := 9000000\<rparr>"

text \<open>Collaborators whose transport refuses to pause and to resume.\<close>

definition env_refusing :: env where
  "env_refusing =
     env0\<lparr>tg_pause_stream := (\<lambda>c. Some (Exc OtherException ''not in a call'')),
          tg_resume_stream := (\<lambda>c. Some (Exc OtherException ''not in a call''))\<rparr>"

text \<open>\<open>streamer1\<close> after its session was stopped at 5 s.\<close>

definition streamer_stopped :: TelegramStreamer where
  "streamer_stopped = streamer1\<lparr>sessions := [(''1b9d6bcd'', mark_stopped 5000000 session0)]\<rparr>"

text \<open>
  The settings of the test suite, a manager with no task, and a retry loop whose first
  attempt fails with a connection error and whose second attempt returns.
\<close>

definition settings0 :: Settings where
  "settings0 =
     \<lparr>ffmpeg_path = ''ffmpeg'', ffmpeg_threads = 2, reconnect_enabled = True,
      reconnect_min_delay = 1, reconnect_max_delay = 5, reconnect_max_attempts = 3,
      reconnect_timeout = 30\<rparr>"

definition manager0 :: ReconnectionManager where
  "manager0 = \<lparr>rm_reconnect_tasks = [], rm_active = True\<rparr>"

definition loop_env0 :: loop_env where
  "loop_env0 =
     \<lparr>active_at = (\<lambda>n. True),
      now_at = (\<lambda>n. 3000000 + int n),
      start_stream_func =
        (\<lambda>n c u p. if n = 1 then Raised (Exc StreamConnectionError ''Failed to start stream: timeout'')
                   else Returned ()),
      now_streaming = (\<lambda>n. 4000000),
      seconds_since_start = (\<lambda>n. 2),
      sleep_cancelled = (\<lambda>n. False)\<rparr>"

text \<open>
  The manager after \<open>handle_disconnect\<close> has launched the loop of \<open>session0\<close> and
  the loop has reached its first await.
\<close>

definition manager_running :: ReconnectionManager where
  "manager_running =
     task_first_step (fst (handle_disconnect settings0 manager0 session0 None)) ''1b9d6bcd''"

text \<open>
  Following the spec's words: the hostname of a url is the text between \<open>://\<close> and
  the next slash.
\<close>

fun after_scheme :: "string \<Rightarrow> string" where
  "after_scheme [] = []"
| "after_scheme (c # cs) =
     (if take 3 (c # cs) = ''://'' then drop 3 (c # cs) else after_scheme cs)"

definition url_hostname :: "string \<Rightarrow> string" where
  "url_hostname u = takeWhile (\<lambda>c. c \<noteq> CHR ''/'') (after_scheme u)"

section \<open>Lemmas on strings and dictionaries\<close>

lemma startswith_prefix: "startswith s p \<longleftrightarrow> prefix p s"
  unfolding startswith_def by (metis prefix_def take_is_prefix append_eq_conv_conj)

lemma endswith_suffix: "endswith s p \<longleftrightarrow> suffix p s"
  unfolding endswith_def
  by (metis suffix_def append_eq_conv_conj append_take_drop_id length_append
      diff_add_inverse2 le_add2 suffix_drop)

lemma py_in_sublist: "py_in p s \<longleftrightarrow> sublist p s"
  by (induction s) (auto simp: startswith_prefix sublist_Cons_right)

section \<open>Source classification\<close>

text \<open>
  C3 (as the code has it). \<open>detect_type\<close> is a total function of the url and returns
  exactly one kind. Its rules are tried in order on the lower-cased url: if
  \<open>youtube.com\<close> or \<open>youtu.be\<close> occurs anywhere in it the kind is \<open>YOUTUBE\<close>; else a
  suffix \<open>.m3u\<close> gives \<open>M3U\<close>; else a suffix \<open>.m3u8\<close> or an occurrence of \<open>/hls/\<close>
  gives \<open>HLS\<close>; else a prefix \<open>rtmp://\<close> or \<open>rtmps://\<close> gives \<open>RTMP\<close>; every other
  url gives \<open>HLS\<close>. The url is stored unchanged. The six example urls map to \<open>HLS\<close>,
  \<open>M3U\<close>, \<open>RTMP\<close>, \<open>RTMP\<close>, \<open>YOUTUBE\<close> and \<open>HLS\<close>.
\<close>

theorem detect_type_rules:
  "stream_type (detect_type u) =
     (if sublist ''youtube.com'' (lower u) \<or> sublist ''youtu.be'' (lower u) then YOUTUBE
      else if suffix ''.m3u'' (lower u) then M3U
      else if suffix ''.m3u8'' (lower u) \<or> sublist ''/hls/'' (lower u) then HLS
      else if prefix ''rtmp://'' (lower u) \<or> prefix ''rtmps://'' (lower u) then RTMP
      else HLS)
   \<and> url (detect_type u) = u
   \<and> map (stream_type \<circ> detect_type)
        [''https://x/live/a.m3u8'', ''https://x/a.m3u'', ''rtmp://h/k'', ''rtmps://h/k'',
         ''https://youtu.be/z'', ''https://x/video/feed'']
      = [HLS, M3U, RTMP, RTMP, YOUTUBE, HLS]"
proof -
  have rules: "stream_type (detect_type u) =
     (if sublist ''youtube.com'' (lower u) \<or> sublist ''youtu.be'' (lower u) then YOUTUBE
      else if suffix ''.m3u'' (lower u) then M3U
      else if suffix ''.m3u8'' (lower u) \<or> sublist ''/hls/'' (lower u) then HLS
      else if prefix ''rtmp://'' (lower u) \<or> prefix ''rtmps://'' (lower u) then RTMP
      else HLS)"
    by (simp add: detect_type_def Let_def py_in_sublist endswith_suffix startswith_prefix)
  have same: "url (detect_type u) = u"
    by (simp add: detect_type_def Let_def)
  have six: "map (stream_type \<circ> detect_type)
        [''https://x/live/a.m3u8'', ''https://x/a.m3u'', ''rtmp://h/k'', ''rtmps://h/k'',
         ''https://youtu.be/z'', ''https://x/video/feed'']
      = [HLS, M3U, RTMP, RTMP, YOUTUBE, HLS]"
    by (simp add: detect_type_def lower_def lower_char_def startswith_def endswith_def)
  from rules same six show ?thesis by (intro conjI)
qed

text \<open>
  C3 as stated fails on two urls. The first has the hostname \<open>x\<close>, which is no video
  platform, and the suffix \<open>.m3u\<close>, yet it is classified \<open>YOUTUBE\<close> because
  \<open>youtu.be\<close> occurs in its path. The second has none of the stated features (its
  suffix is \<open>.M3U\<close> in capitals), yet it is classified \<open>M3U\<close> and not \<open>HLS\<close>.
\<close>

theorem detect_type_hostname_counterexample:
  "url_hostname ''https://x/youtu.be/a.m3u'' = ''x''
   \<and> suffix ''.m3u'' ''https://x/youtu.be/a.m3u''
   \<and> stream_type (detect_type ''https://x/youtu.be/a.m3u'') = YOUTUBE
   \<and> url_hostname ''https://x/a.M3U'' = ''x''
   \<and> \<not> suffix ''.m3u'' ''https://x/a.M3U''
   \<and> \<not> suffix ''.m3u8'' ''https://x/a.M3U''
   \<and> \<not> sublist ''/hls/'' ''https://x/a.M3U''
   \<and> \<not> prefix ''rtmp://'' ''https://x/a.M3U''
   \<and> \<not> prefix ''rtmps://'' ''https://x/a.M3U''
   \<and> stream_type (detect_type ''https://x/a.M3U'') = M3U"
  by (simp add: url_hostname_def detect_type_def lower_def lower_char_def startswith_def
        endswith_def suffix_to_prefix sublist_Cons_right)

section \<open>Duration of a session\<close>

text \<open>
  C9. The duration of a session is 0 while \<open>started_at\<close> is unset. Once it is set, the
  duration is \<open>stopped_at\<close> if set, otherwise the current time, minus \<open>started_at\<close>
  (in seconds). So the duration never decreases as the clock advances, it grows
  strictly after \<open>mark_streaming\<close> on a session that was not stopped, and after
  \<open>mark_stopped\<close> it no longer depends on the clock.
\<close>

theorem duration_seconds_derived:
  "(started_at s = None \<longrightarrow> duration_seconds now s = 0)
   \<and> (\<forall>st. started_at s = Some st \<longrightarrow>
         duration_seconds now s =
           real_of_int ((case stopped_at s of Some t \<Rightarrow> t | None \<Rightarrow> now) - st) / 1000000)
   \<and> (now \<le> now' \<longrightarrow> duration_seconds now s \<le> duration_seconds now' s)
   \<and> (stopped_at s = None \<and> now < now' \<longrightarrow>
         duration_seconds now (mark_streaming t s) < duration_seconds now' (mark_streaming t s))
   \<and> duration_seconds now (mark_stopped t s) = duration_seconds now' (mark_stopped t s)"
  by (auto simp: duration_seconds_def mark_streaming_def mark_stopped_def divide_right_mono
      split: option.splits)

theorem duration_seconds_derived_witness:
  "duration_seconds 9000000 (session0\<lparr>started_at := None\<rparr>) = 0
   \<and> duration_seconds 9000000 session0 = 7
   \<and> duration_seconds 9000000 session0 \<le> duration_seconds 9500000 session0
   \<and> duration_seconds 9000000 (mark_streaming 3000000 session0)
       < duration_seconds 9500000 (mark_streaming 3000000 session0)
   \<and> duration_seconds 9000000 (mark_stopped 5000000 session0) = 3
   \<and> duration_seconds 9500000 (mark_stopped 5000000 session0) = 3"
  using duration_seconds_derived
          [where s = "session0\<lparr>started_at := None\<rparr>" and now = 9000000]
        duration_seconds_derived
          [where s = session0 and now = 9000000 and now' = 9500000 and t = 3000000]
        duration_seconds_derived
          [where s = session0 and now = 9000000 and now' = 9500000 and t = 5000000]
  by (simp add: session0_def duration_seconds_def mark_streaming_def mark_stopped_def)

lemma delete_absent: "map_of d k = None \<Longrightarrow> AList.delete k d = d"
  by (simp add: map_of_eq_None_iff)

section \<open>The profile catalog\<close>

text \<open>Every call of the constructor runs out of stack: the recursion has no base case.\<close>

lemma TranscodeSettings_init_raises:
  "TranscodeSettings_init d w h vb ab f =
     Inl (Exc RecursionError ''maximum recursion depth exceeded'')"
  by (induction d arbitrary: w h vb ab f) simp_all

lemma get_profile_RecursionError:
  "get_profile d p = Inl (Exc RecursionError ''maximum recursion depth exceeded'')"
  by (simp add: get_profile_def TranscodeSettings_init_raises)

text \<open>
  C6 (what the code does). The claim is that the profile catalog maps \<open>480p\<close>, \<open>720p\<close>
  and \<open>1080p\<close> to their fixed encode parameters and \<open>auto\<close> and every unknown name to
  no entry. \<open>get_profile\<close> returns none of these: whatever the name and however deep
  the interpreter's stack, building the first preset raises \<open>RecursionError\<close>, because
  \<open>__post_init__\<close> constructs \<open>TranscodeSettings\<close> again.
\<close>

theorem get_profile_raises:
  "get_profile d ''480p'' = Inl (Exc RecursionError ''maximum recursion depth exceeded'')
   \<and> get_profile d ''720p'' = Inl (Exc RecursionError ''maximum recursion depth exceeded'')
   \<and> get_profile d ''1080p'' = Inl (Exc RecursionError ''maximum recursion depth exceeded'')
   \<and> get_profile d ''auto'' = Inl (Exc RecursionError ''maximum recursion depth exceeded'')
   \<and> get_profile d p = Inl (Exc RecursionError ''maximum recursion depth exceeded'')"
  by (simp add: get_profile_def TranscodeSettings_init_raises)

section \<open>The command builder\<close>

text \<open>
  The input arguments do not depend on the profile catalog: they begin with the
  reconnect flags exactly for the kinds \<open>HLS\<close>, \<open>M3U8\<close> and \<open>M3U\<close>, and with the
  RTMP-live flag exactly for \<open>RTMP\<close>.
\<close>

lemma build_input_args_reconnect:
  "prefix [''-reconnect'', ''1'', ''-reconnect_streamed'', ''1'', ''-reconnect_delay_max'', ''5'']
      (build_input_args src)
   \<longleftrightarrow> stream_type src = HLS \<or> stream_type src = M3U8 \<or> stream_type src = M3U"
  by (cases "stream_type src") (simp_all add: build_input_args_def)

lemma build_input_args_rtmp:
  "prefix [''-rtmp_live'', ''live''] (build_input_args src) \<longleftrightarrow> stream_type src = RTMP"
  by (cases "stream_type src") (simp_all add: build_input_args_def)

text \<open>
  C7 (what the code does). The claim is that the builder returns an argument list with
  \<open>copy\<close> codecs under \<open>AUTO\<close> and the profile's encode parameters under a named
  profile. The video and the audio arguments both start with \<open>get_profile\<close>, so for
  every source, profile and output the two builders and \<open>build_command\<close> raise
  \<open>RecursionError\<close> and return no argument list.
\<close>

theorem build_command_raises:
  "build_video_args d prof = Inl (Exc RecursionError ''maximum recursion depth exceeded'')
   \<and> build_audio_args d prof = Inl (Exc RecursionError ''maximum recursion depth exceeded'')
   \<and> build_command d cfg src prof output =
        Inl (Exc RecursionError ''maximum recursion depth exceeded'')"
  by (simp add: build_command_def build_video_args_def build_audio_args_def
        get_profile_RecursionError)

section \<open>The registry: start\<close>

text \<open>\<open>streamer1\<close> is what \<open>start_stream\<close> makes of \<open>streamer0\<close>.\<close>

lemma start_stream_streamer0:
  "start_stream env0 streamer0 (ChatStr ''@chan'') ''https://x/live/a.m3u8'' P720
     = (Inr session0, streamer1, [GetChat ''@chan'', Play 7 ''https://x/live/a.m3u8''])"
  by (simp add: start_stream_def streamer0_def streamer1_def env0_def session0_def
        resolve_chat_id_def occupies_def prepare_stream_url_def detect_type_def
        lower_def lower_char_def startswith_def endswith_def mark_streaming_def Let_def)

text \<open>
  C1. In a started registry where some session for target \<open>T\<close> has status
  \<open>CONNECTING\<close>, \<open>STREAMING\<close> or \<open>RECONNECTING\<close>, a start call whose chat
  identifier resolves to \<open>T\<close> fails with the already-streaming error (a
  \<open>StreamConnectionError\<close> with the message \<open>Already streaming to chat T\<close>), and the
  registry is returned as it was: no session is created and no field of any session
  changes.
\<close>

theorem start_stream_already_streaming:
  assumes "started st" and "resolve_chat_id e st ci = (Inr T, fx)"
      and "map_of (sessions st) k = Some s" and "chat_id s = T"
      and "status s = CONNECTING \<or> status s = STREAMING \<or> status s = RECONNECTING"
  shows "start_stream e st ci source_url prof =
           (Inl (Exc StreamConnectionError (''Already streaming to chat '' @ str_int T)), st, fx)"
proof -
  from assms(3) have "(k, s) \<in> set (sessions st)" by (rule map_of_SomeD)
  moreover from assms(4,5) have "occupies T (snd (k, s))" by (auto simp: occupies_def)
  ultimately have "list_ex (\<lambda>kv. occupies T (snd kv)) (sessions st)"
    unfolding list_ex_iff by blast
  with assms(1,2) show ?thesis by (simp add: start_stream_def)
qed

text \<open>
  With \<open>session0\<close> streaming to chat 7, a second start for a name that resolves to
  chat 7 is refused and \<open>streamer1\<close> is unchanged.
\<close>

theorem start_stream_already_streaming_witness:
  "started streamer1
   \<and> resolve_chat_id env0 streamer1 (ChatStr ''@chan'') = (Inr 7, [GetChat ''@chan''])
   \<and> map_of (sessions streamer1) ''1b9d6bcd'' = Some session0
   \<and> chat_id session0 = 7 \<and> status session0 = STREAMING
   \<and> start_stream env0 streamer1 (ChatStr ''@chan'') ''rtmp://h/k'' AUTO
       = (Inl (Exc StreamConnectionError ''Already streaming to chat 7''), streamer1,
          [GetChat ''@chan''])"
proof -
  have a: "started streamer1" by (simp add: streamer1_def streamer0_def)
  have b: "resolve_chat_id env0 streamer1 (ChatStr ''@chan'') = (Inr 7, [GetChat ''@chan''])"
    by (simp add: resolve_chat_id_def streamer1_def streamer0_def env0_def)
  have c: "map_of (sessions streamer1) ''1b9d6bcd'' = Some session0"
    by (simp add: streamer1_def streamer0_def)
  have d: "chat_id session0 = 7" by (simp add: session0_def)
  have f: "status session0 = CONNECTING \<or> status session0 = STREAMING
             \<or> status session0 = RECONNECTING"
    by (simp add: session0_def)
  have g: "status session0 = STREAMING" by (simp add: session0_def)
  have h: "str_int 7 = ''7''" by (simp add: str_int_def str_nat.simps)
  from start_stream_already_streaming [OF a b c d f, of "''rtmp://h/k''" AUTO] a b c d g h
  show ?thesis by simp
qed

section \<open>The registry: stop\<close>

text \<open>The two guarded steps of \<open>stop_stream\<close> never raise.\<close>

lemma cancel_reconnect_task_eq:
  "cancel_reconnect_task st sid =
     (Inr (), st\<lparr>reconnect_tasks := AList.delete sid (reconnect_tasks st)\<rparr>,
      (case map_of (reconnect_tasks st) sid of None \<Rightarrow> [] | Some t \<Rightarrow> [TaskCancel t]))"
  by (cases "map_of (reconnect_tasks st) sid")
     (simp_all add: cancel_reconnect_task_def py_contains_def py_getitem_def py_delitem_def
        delete_absent)

lemma stop_ffmpeg_process_eq:
  "stop_ffmpeg_process e st sid =
     (Inr (), st\<lparr>ffmpeg_processes := AList.delete sid (ffmpeg_processes st)\<rparr>,
      (case map_of (ffmpeg_processes st) sid of None \<Rightarrow> [] | Some w \<Rightarrow> snd (ffmpeg_stop e w)))"
  by (cases "map_of (ffmpeg_processes st) sid")
     (simp_all add: stop_ffmpeg_process_def py_contains_def py_getitem_def py_delitem_def
        delete_absent)

lemma stop_stream_unknown:
  "map_of (sessions st) sid = None \<Longrightarrow> stop_stream e st sid = (Inr False, st, [])"
  by (simp add: stop_stream_def)

lemma stop_stream_known:
  "map_of (sessions st) sid = Some s \<Longrightarrow>
   stop_stream e st sid =
     (Inr True,
      st\<lparr>reconnect_tasks := AList.delete sid (reconnect_tasks st),
         ffmpeg_processes := AList.delete sid (ffmpeg_processes st),
         sessions := AList.update sid (mark_stopped (utcnow e) s) (sessions st)\<rparr>,
      (case map_of (reconnect_tasks st) sid of None \<Rightarrow> [] | Some t \<Rightarrow> [TaskCancel t]) @
      (case map_of (ffmpeg_processes st) sid of None \<Rightarrow> [] | Some w \<Rightarrow> snd (ffmpeg_stop e w)) @
      (if tgcalls st then [LeaveCall (chat_id s)] else []))"
  by (simp add: stop_stream_def cancel_reconnect_task_eq stop_ffmpeg_process_eq
        leave_video_chat_def)

text \<open>
  C4 (as the code has it). \<open>stop_stream\<close> on an unknown id returns false, changes
  nothing and calls no collaborator. On a known id it stops the transcoder of the
  session if one is recorded and forgets it, calls the transport's \<open>leave_call\<close>
  exactly if the transport is set, marks the session \<open>STOPPED\<close> (no other session
  changes, and the transport, the client and the started flag stay as they were) and
  returns true; a second stop of the same id does not raise.
\<close>

theorem stop_stream_behaviour:
  "(map_of (sessions st) sid = None \<longrightarrow> stop_stream e st sid = (Inr False, st, []))
   \<and> (\<forall>s. map_of (sessions st) sid = Some s \<longrightarrow>
         fst (stop_stream e st sid) = Inr True
         \<and> sessions (fst (snd (stop_stream e st sid)))
             = AList.update sid (mark_stopped (utcnow e) s) (sessions st)
         \<and> status (mark_stopped (utcnow e) s) = STOPPED
         \<and> ffmpeg_processes (fst (snd (stop_stream e st sid)))
             = AList.delete sid (ffmpeg_processes st)
         \<and> set (case map_of (ffmpeg_processes st) sid of
                  None \<Rightarrow> [] | Some w \<Rightarrow> snd (ffmpeg_stop e w))
             \<subseteq> set (snd (snd (stop_stream e st sid)))
         \<and> (LeaveCall (chat_id s) \<in> set (snd (snd (stop_stream e st sid))) \<longleftrightarrow> tgcalls st)
         \<and> tgcalls (fst (snd (stop_stream e st sid))) = tgcalls st
         \<and> client (fst (snd (stop_stream e st sid))) = client st
         \<and> started (fst (snd (stop_stream e st sid))) = started st
         \<and> (\<exists>b. fst (stop_stream e' (fst (snd (stop_stream e st sid))) sid) = Inr b))"
proof (intro conjI allI impI)
  assume "map_of (sessions st) sid = None"
  then show "stop_stream e st sid = (Inr False, st, [])" by (rule stop_stream_unknown)
next
  fix s assume known: "map_of (sessions st) sid = Some s"
  let ?st' = "fst (snd (stop_stream e st sid))"
  let ?fx = "snd (snd (stop_stream e st sid))"
  note run = stop_stream_known [OF known, of e]
  show "fst (stop_stream e st sid) = Inr True" by (simp add: run)
  show sessions': "sessions ?st' = AList.update sid (mark_stopped (utcnow e) s) (sessions st)"
    by (simp add: run)
  show "status (mark_stopped (utcnow e) s) = STOPPED" by (simp add: mark_stopped_def)
  show "ffmpeg_processes ?st' = AList.delete sid (ffmpeg_processes st)" by (simp add: run)
  show "set (case map_of (ffmpeg_processes st) sid of
               None \<Rightarrow> [] | Some w \<Rightarrow> snd (ffmpeg_stop e w)) \<subseteq> set ?fx"
    unfolding run by auto
  show "LeaveCall (chat_id s) \<in> set ?fx \<longleftrightarrow> tgcalls st"
    by (auto simp: run ffmpeg_stop_def split: option.splits if_splits)
  show "tgcalls ?st' = tgcalls st" by (simp add: run)
  show "client ?st' = client st" by (simp add: run)
  show "started ?st' = started st" by (simp add: run)
  from sessions' have "map_of (sessions ?st') sid = Some (mark_stopped (utcnow e) s)"
    by (simp add: update_conv')
  then have "fst (stop_stream e' ?st' sid) = Inr True" by (simp add: stop_stream_known)
  then show "\<exists>b. fst (stop_stream e' ?st' sid) = Inr b" ..
qed

text \<open>
  \<open>streamer1\<close> is the registry after one start (lemma \<open>start_stream_streamer0\<close>). An
  unknown id changes nothing; stopping its session returns true, leaves chat 7 and
  marks the session stopped at 5 s; the second stop does not raise.
\<close>

theorem stop_stream_behaviour_witness:
  "map_of (sessions streamer1) ''nope'' = None
   \<and> stop_stream env1 streamer1 ''nope'' = (Inr False, streamer1, [])
   \<and> map_of (sessions streamer1) ''1b9d6bcd'' = Some session0
   \<and> fst (stop_stream env1 streamer1 ''1b9d6bcd'') = Inr True
   \<and> sessions (fst (snd (stop_stream env1 streamer1 ''1b9d6bcd'')))
       = [(''1b9d6bcd'', mark_stopped 5000000 session0)]
   \<and> status (mark_stopped 5000000 session0) = STOPPED
   \<and> tgcalls streamer1
   \<and> LeaveCall 7 \<in> set (snd (snd (stop_stream env1 streamer1 ''1b9d6bcd'')))
   \<and> fst (stop_stream env2 (fst (snd (stop_stream env1 streamer1 ''1b9d6bcd''))) ''1b9d6bcd'')
       = Inr True"
proof -
  have unknown: "map_of (sessions streamer1) ''nope'' = None"
    by (simp add: streamer1_def streamer0_def)
  have known: "map_of (sessions streamer1) ''1b9d6bcd'' = Some session0"
    by (simp add: streamer1_def streamer0_def)
  have transport: "tgcalls streamer1" by (simp add: streamer1_def streamer0_def)
  have now: "utcnow env1 = 5000000" by (simp add: env1_def env0_def)
  have chat: "chat_id session0 = 7" by (simp add: session0_def)
  have upd: "AList.update ''1b9d6bcd'' (mark_stopped 5000000 session0) (sessions streamer1)
               = [(''1b9d6bcd'', mark_stopped 5000000 session0)]"
    by (simp add: streamer1_def streamer0_def)
  from unknown stop_stream_behaviour [where st = streamer1 and sid = "''nope''" and e = env1]
  have r1: "stop_stream env1 streamer1 ''nope'' = (Inr False, streamer1, [])"
    by blast
  from known
    stop_stream_behaviour [where st = streamer1 and sid = "''1b9d6bcd''" and e = env1
      and e' = env2]
  have r2: "fst (stop_stream env1 streamer1 ''1b9d6bcd'') = Inr True"
    and r3: "sessions (fst (snd (stop_stream env1 streamer1 ''1b9d6bcd'')))
               = AList.update ''1b9d6bcd'' (mark_stopped (utcnow env1) session0)
                   (sessions streamer1)"
    and r4: "status (mark_stopped (utcnow env1) session0) = STOPPED"
    and r5: "LeaveCall (chat_id session0)
               \<in> set (snd (snd (stop_stream env1 streamer1 ''1b9d6bcd'')))
             \<longleftrightarrow> tgcalls streamer1"
    and r6: "\<exists>b. fst (stop_stream env2 (fst (snd (stop_stream env1 streamer1 ''1b9d6bcd'')))
                     ''1b9d6bcd'') = Inr b"
    by blast+
  have again: "map_of (sessions (fst (snd (stop_stream env1 streamer1 ''1b9d6bcd''))))
                 ''1b9d6bcd'' = Some (mark_stopped 5000000 session0)"
    by (simp add: r3 now upd)
  have r7: "fst (stop_stream env2 (fst (snd (stop_stream env1 streamer1 ''1b9d6bcd'')))
                   ''1b9d6bcd'') = Inr True"
    using again by (simp add: stop_stream_known)
  from unknown r1 known r2 r3 r4 r5 transport r7 show ?thesis
    by (simp add: now chat upd)
qed

text \<open>
  C4 as stated fails after the streamer itself was stopped: \<open>TelegramStreamer.stop\<close>
  keeps the sessions and unsets the transport. A stop of the kept session then returns
  true and marks it, and no collaborator is called: the call transport's leave is not
  invoked.
\<close>

theorem stop_stream_leave_counterexample:
  "map_of (sessions (fst (snd (streamer_stop env0 streamer1)))) ''1b9d6bcd''
     = Some (mark_stopped 1000000 session0)
   \<and> \<not> tgcalls (fst (snd (streamer_stop env0 streamer1)))
   \<and> stop_stream env1 (fst (snd (streamer_stop env0 streamer1))) ''1b9d6bcd''
       = (Inr True,
          streamer_stopped\<lparr>tgcalls := False, client := False, started := False\<rparr>,
          [])"
  by (simp add: streamer_stop_def stop_stream_def cancel_reconnect_task_def
        stop_ffmpeg_process_def leave_video_chat_def py_contains_def streamer1_def
        streamer0_def streamer_stopped_def env0_def env1_def mark_stopped_def session0_def)

text \<open>
  No operation of the registry records a reconnect task or a transcoder: \<open>start_stream\<close>
  leaves both tables as they are, so from \<open>streamer0\<close> they stay empty. The loops in
  flight are the manager's (its own \<open>_reconnect_tasks\<close>), which the registry does not
  know. With the loop of \<open>session0\<close> in flight, \<open>stop_stream\<close> makes one call, the
  leave, and cancels nothing.
\<close>

lemma start_stream_keeps_tables:
  "reconnect_tasks (fst (snd (start_stream e st ci u prof))) = reconnect_tasks st
   \<and> ffmpeg_processes (fst (snd (start_stream e st ci u prof))) = ffmpeg_processes st"
  by (simp add: start_stream_def Let_def split: prod.splits sum.splits option.splits)

lemma stop_stream_loop_in_flight:
  "is_reconnecting manager_running ''1b9d6bcd''
   \<and> fst (stop_stream env1 (registry_at_attempt loop_env0 streamer1 ''1b9d6bcd'' 1) ''1b9d6bcd'')
       = Inr True
   \<and> snd (snd (stop_stream env1 (registry_at_attempt loop_env0 streamer1 ''1b9d6bcd'' 1)
                  ''1b9d6bcd''))
       = [LeaveCall 7]"
  by (simp add: manager_running_def handle_disconnect_def task_first_step_def settings0_def
        manager0_def session0_def is_reconnecting_def py_contains_def stop_stream_def
        cancel_reconnect_task_def stop_ffmpeg_process_def leave_video_chat_def
        registry_at_attempt_def streamer1_def streamer0_def begin_attempt_def
        mark_reconnecting_def)

text \<open>
  C10. Stopping a session that is already \<open>STOPPED\<close> returns true again and
  replaces \<open>stopped_at\<close> by the time of this call, so the duration of a started
  session is measured up to the latest stop.
\<close>

theorem stop_stream_stopped_again:
  assumes "map_of (sessions st) sid = Some s" and "status s = STOPPED"
  shows "fst (stop_stream e st sid) = Inr True
         \<and> map_of (sessions (fst (snd (stop_stream e st sid)))) sid
             = Some (mark_stopped (utcnow e) s)
         \<and> stopped_at (mark_stopped (utcnow e) s) = Some (utcnow e)
         \<and> (\<forall>t. started_at s = Some t \<longrightarrow>
               duration_seconds now (mark_stopped (utcnow e) s)
                 = real_of_int (utcnow e - t) / 1000000)"
  using assms
  by (simp add: stop_stream_known update_conv' mark_stopped_def duration_seconds_def)

text \<open>
  \<open>session0\<close> started at 2 s. Stopped at 5 s its duration is 3 s; stopped again at
  8 s the call returns true and the duration is 6 s.
\<close>

theorem stop_stream_stopped_again_witness:
  "map_of (sessions streamer_stopped) ''1b9d6bcd'' = Some (mark_stopped 5000000 session0)
   \<and> status (mark_stopped 5000000 session0) = STOPPED
   \<and> duration_seconds 9000000 (mark_stopped 5000000 session0) = 3
   \<and> fst (stop_stream env2 streamer_stopped ''1b9d6bcd'') = Inr True
   \<and> map_of (sessions (fst (snd (stop_stream env2 streamer_stopped ''1b9d6bcd'')))) ''1b9d6bcd''
       = Some (mark_stopped 8000000 (mark_stopped 5000000 session0))
   \<and> duration_seconds 9000000 (mark_stopped 8000000 (mark_stopped 5000000 session0)) = 6"
proof -
  have known: "map_of (sessions streamer_stopped) ''1b9d6bcd''
                 = Some (mark_stopped 5000000 session0)"
    by (simp add: streamer_stopped_def streamer1_def streamer0_def)
  have stopped: "status (mark_stopped 5000000 session0) = STOPPED"
    by (simp add: mark_stopped_def)
  have now: "utcnow env2 = 8000000" by (simp add: env2_def env0_def)
  have started: "started_at (mark_stopped 5000000 session0) = Some 2000000"
    by (simp add: mark_stopped_def session0_def)
  have first: "duration_seconds 9000000 (mark_stopped 5000000 session0) = 3"
    by (simp add: duration_seconds_def mark_stopped_def session0_def)
  from stop_stream_stopped_again [OF known stopped, where e = env2 and now = 9000000]
    known stopped first started
  show ?thesis by (simp add: now)
qed

section \<open>The registry: pause and resume\<close>

text \<open>
  C8. \<open>pause_stream\<close> returns true only for a known session whose status is
  \<open>STREAMING\<close>, and then the registry differs only in that session's status, now
  \<open>PAUSED\<close>; \<open>resume_stream\<close> returns true only for a known session whose status
  is \<open>PAUSED\<close>, and then only that status changes, to \<open>STREAMING\<close>. Each returns
  true exactly when, besides, the transport is set and its call does not fail. In every
  other case (unknown id, wrong status, transport unset or failing) the result is false
  and the registry is unchanged.
\<close>

theorem pause_resume_transitions:
  "(fst (pause_stream e st sid) \<longrightarrow>
      (\<exists>s. map_of (sessions st) sid = Some s \<and> status s = STREAMING
           \<and> fst (snd (pause_stream e st sid))
               = st\<lparr>sessions := AList.update sid (s\<lparr>status := PAUSED\<rparr>) (sessions st)\<rparr>))
   \<and> (\<not> fst (pause_stream e st sid) \<longrightarrow> fst (snd (pause_stream e st sid)) = st)
   \<and> (fst (pause_stream e st sid) \<longleftrightarrow>
        (\<exists>s. map_of (sessions st) sid = Some s \<and> status s = STREAMING \<and> tgcalls st
             \<and> tg_pause_stream e (chat_id s) = None))
   \<and> (fst (resume_stream e st sid) \<longrightarrow>
      (\<exists>s. map_of (sessions st) sid = Some s \<and> status s = PAUSED
           \<and> fst (snd (resume_stream e st sid))
               = st\<lparr>sessions := AList.update sid (s\<lparr>status := STREAMING\<rparr>) (sessions st)\<rparr>))
   \<and> (\<not> fst (resume_stream e st sid) \<longrightarrow> fst (snd (resume_stream e st sid)) = st)
   \<and> (fst (resume_stream e st sid) \<longleftrightarrow>
        (\<exists>s. map_of (sessions st) sid = Some s \<and> status s = PAUSED \<and> tgcalls st
             \<and> tg_resume_stream e (chat_id s) = None))"
  by (auto simp: pause_stream_def resume_stream_def split: option.splits if_splits)

text \<open>
  \<open>session0\<close> is paused and resumed; a refusing transport, an unknown id and a resume
  of a streaming session give false and leave \<open>streamer1\<close> as it was.
\<close>

theorem pause_resume_transitions_witness:
  "pause_stream env0 streamer1 ''1b9d6bcd''
     = (True, streamer1\<lparr>sessions := [(''1b9d6bcd'', session0\<lparr>status := PAUSED\<rparr>)]\<rparr>,
        [PauseStream 7])
   \<and> resume_stream env0 (streamer1\<lparr>sessions := [(''1b9d6bcd'', session0\<lparr>status := PAUSED\<rparr>)]\<rparr>)
       ''1b9d6bcd''
     = (True, streamer1, [ResumeStream 7])
   \<and> pause_stream env_refusing streamer1 ''1b9d6bcd'' = (False, streamer1, [PauseStream 7])
   \<and> pause_stream env0 streamer1 ''nope'' = (False, streamer1, [])
   \<and> resume_stream env0 streamer1 ''1b9d6bcd'' = (False, streamer1, [])"
  using pause_resume_transitions [where e = env0 and st = streamer1 and sid = "''1b9d6bcd''"]
        pause_resume_transitions
          [where e = env0 and sid = "''1b9d6bcd''"
             and st = "streamer1\<lparr>sessions := [(''1b9d6bcd'', session0\<lparr>status := PAUSED\<rparr>)]\<rparr>"]
        pause_resume_transitions
          [where e = env_refusing and st = streamer1 and sid = "''1b9d6bcd''"]
        pause_resume_transitions [where e = env0 and st = streamer1 and sid = "''nope''"]
  by (simp add: pause_stream_def resume_stream_def streamer1_def streamer0_def session0_def
        env0_def env_refusing_def)

section \<open>The reconnection loop\<close>

lemma begin_attempt_fixed [simp]:
  "chat_id (begin_attempt env n s) = chat_id s"
  "source (begin_attempt env n s) = source s"
  "profile (begin_attempt env n s) = profile s"
  "session_id (begin_attempt env n s) = session_id s"
  by (simp_all add: begin_attempt_def)

lemma mark_reconnecting_fixed [simp]:
  "chat_id (mark_reconnecting t s) = chat_id s"
  "source (mark_reconnecting t s) = source s"
  "profile (mark_reconnecting t s) = profile s"
  "session_id (mark_reconnecting t s) = session_id s"
  by (simp_all add: mark_reconnecting_def)


text \<open>
  Nothing in the repository passes a start function to the manager. Were it
  \<open>TelegramStreamer.start_stream\<close>: a session that the registry holds is
  \<open>RECONNECTING\<close> while its loop runs, so each attempt for its chat id is refused by
  the occupancy check, whatever the url and the profile.
\<close>

lemma start_stream_refuses_reconnecting:
  assumes "started st" and "client st"
      and "map_of (sessions st) k = Some s" and "status s = RECONNECTING"
  shows "start_stream e st (ChatInt (chat_id s)) u prof =
           (Inl (Exc StreamConnectionError
                   (''Already streaming to chat '' @ str_int (chat_id s))), st, [])"
proof -
  from assms(3) have "(k, s) \<in> set (sessions st)" by (rule map_of_SomeD)
  moreover from assms(4) have "occupies (chat_id s) (snd (k, s))" by (simp add: occupies_def)
  ultimately have "list_ex (\<lambda>kv. occupies (chat_id s) (snd kv)) (sessions st)"
    unfolding list_ex_iff by blast
  with assms(1,2) show ?thesis by (simp add: start_stream_def resolve_chat_id_def)
qed

text \<open>One unfolding of the loop, case by case.\<close>

lemma attempts_inactive:
  "\<not> active_at env n \<Longrightarrow>
   attempts cfg env n s calls =
     (Failed (Exc ReconnectionError ''Reconnection manager stopped''), s, calls)"
  by (subst attempts.simps) simp

lemma attempts_returned:
  "active_at env n \<Longrightarrow>
   start_stream_func env n (chat_id s) (url (source s)) (profile s) = Returned r \<Longrightarrow>
   attempts cfg env n s calls =
     (Succeeded, mark_streaming (now_streaming env n) (begin_attempt env n s),
      calls @ [(chat_id s, url (source s), profile s)])"
  by (subst attempts.simps) simp

lemma attempts_cancelled:
  "active_at env n \<Longrightarrow>
   start_stream_func env n (chat_id s) (url (source s)) (profile s) = Cancelled \<Longrightarrow>
   attempts cfg env n s calls =
     (Interrupted, begin_attempt env n s, calls @ [(chat_id s, url (source s), profile s)])"
  by (subst attempts.simps) simp

lemma attempts_raised_last:
  "active_at env n \<Longrightarrow>
   start_stream_func env n (chat_id s) (url (source s)) (profile s) = Raised x \<Longrightarrow>
   \<not> (retry_if_exception_type x \<and> \<not> stop_retrying cfg env n \<and> \<not> sleep_cancelled env n) \<Longrightarrow>
   attempts cfg env n s calls =
     (if retry_if_exception_type x \<and> \<not> stop_retrying cfg env n then Interrupted else Failed x,
      begin_attempt env n s, calls @ [(chat_id s, url (source s), profile s)])"
  by (subst attempts.simps) auto

lemma attempts_raised_retry:
  "active_at env n \<Longrightarrow>
   start_stream_func env n (chat_id s) (url (source s)) (profile s) = Raised x \<Longrightarrow>
   retry_if_exception_type x \<Longrightarrow> \<not> stop_retrying cfg env n \<Longrightarrow> \<not> sleep_cancelled env n \<Longrightarrow>
   attempts cfg env n s calls =
     attempts cfg env (Suc n) (begin_attempt env n s)
       (calls @ [(chat_id s, url (source s), profile s)])"
  by (subst attempts.simps) simp

text \<open>
  Induction over the attempts: a property of the result that holds at each way the loop
  ends, and that passes from attempt \<open>n + 1\<close> to attempt \<open>n\<close>, holds of every run.
\<close>

lemma attempts_induct [consumes 0, case_names inactive returned cancelled last retry]:
  assumes inactive: "\<And>n s calls. \<not> active_at env n \<Longrightarrow>
             P n s calls (Failed (Exc ReconnectionError ''Reconnection manager stopped''), s, calls)"
    and returned: "\<And>n s calls r. active_at env n \<Longrightarrow>
             start_stream_func env n (chat_id s) (url (source s)) (profile s) = Returned r \<Longrightarrow>
             P n s calls
               (Succeeded, mark_streaming (now_streaming env n) (begin_attempt env n s),
                calls @ [(chat_id s, url (source s), profile s)])"
    and cancelled: "\<And>n s calls. active_at env n \<Longrightarrow>
             start_stream_func env n (chat_id s) (url (source s)) (profile s) = Cancelled \<Longrightarrow>
             P n s calls
               (Interrupted, begin_attempt env n s,
                calls @ [(chat_id s, url (source s), profile s)])"
    and last: "\<And>n s calls x ex. active_at env n \<Longrightarrow>
             start_stream_func env n (chat_id s) (url (source s)) (profile s) = Raised x \<Longrightarrow>
             ex \<noteq> Succeeded \<Longrightarrow>
             P n s calls
               (ex, begin_attempt env n s, calls @ [(chat_id s, url (source s), profile s)])"
    and retry: "\<And>n s calls x res. active_at env n \<Longrightarrow>
             start_stream_func env n (chat_id s) (url (source s)) (profile s) = Raised x \<Longrightarrow>
             P (Suc n) (begin_attempt env n s)
               (calls @ [(chat_id s, url (source s), profile s)]) res \<Longrightarrow>
             P n s calls res"
  shows "P n s calls (attempts cfg env n s calls)"
  using assms
proof (induction cfg env n s calls rule: attempts.induct)
  case (1 cfg env n s calls)
  note inactive = "1.prems"(1) and returned = "1.prems"(2) and cancelled = "1.prems"(3)
    and last = "1.prems"(4) and retry = "1.prems"(5)
  let ?c = "(chat_id s, url (source s), profile s)"
  show ?case
  proof (cases "active_at env n")
    case False
    then show ?thesis by (simp add: attempts_inactive inactive)
  next
    case active: True
    show ?thesis
    proof (cases "start_stream_func env n (chat_id s) (url (source s)) (profile s)")
      case (Returned r)
      with active show ?thesis by (simp add: attempts_returned returned)
    next
      case Cancelled
      with active show ?thesis by (simp add: attempts_cancelled cancelled)
    next
      case (Raised x)
      show ?thesis
      proof (cases "retry_if_exception_type x \<and> \<not> stop_retrying cfg env n
                      \<and> \<not> sleep_cancelled env n")
        case False
        have "P n s calls
                (if retry_if_exception_type x \<and> \<not> stop_retrying cfg env n
                   then Interrupted else Failed x,
                 begin_attempt env n s, calls @ [?c])"
          using active Raised by (rule last) simp
        then show ?thesis by (simp only: attempts_raised_last [OF active Raised False])
      next
        case True
        then have again: "retry_if_exception_type x" and go: "\<not> stop_retrying cfg env n"
          and awake: "\<not> sleep_cancelled env n" by simp_all
        have "P (Suc n) (begin_attempt env n s) (calls @ [?c])
                (attempts cfg env (Suc n) (begin_attempt env n s) (calls @ [?c]))"
          by (rule "1.IH")
             (use active Raised again go awake in \<open>auto intro: "1.prems"\<close>)
        with active Raised have "P n s calls
                (attempts cfg env (Suc n) (begin_attempt env n s) (calls @ [?c]))"
          by (rule retry)
        then show ?thesis
          by (simp only: attempts_raised_retry [OF active Raised again go awake])
      qed
    qed
  qed
qed

lemma attempts_session_fixed:
  "chat_id (fst (snd (attempts cfg env n s calls))) = chat_id s
   \<and> source (fst (snd (attempts cfg env n s calls))) = source s
   \<and> profile (fst (snd (attempts cfg env n s calls))) = profile s
   \<and> session_id (fst (snd (attempts cfg env n s calls))) = session_id s"
  by (induction n s calls rule: attempts_induct [where env = env and cfg = cfg])
     (simp_all add: mark_streaming_def)

lemma attempts_calls:
  "\<exists>m. snd (snd (attempts cfg env n s calls))
         = calls @ replicate m (chat_id s, url (source s), profile s)"
proof (induction n s calls rule: attempts_induct [where env = env and cfg = cfg])
  case (inactive n s calls)
  show ?case by (rule exI [of _ 0]) simp
next
  case (retry n s calls x res)
  then obtain m where "snd (snd res) =
      (calls @ [(chat_id s, url (source s), profile s)])
        @ replicate m (chat_id s, url (source s), profile s)"
    by auto
  then show ?case by (intro exI [of _ "Suc m"]) simp
qed (rule exI [of _ "Suc 0"], simp)+

lemma attempts_succeeded:
  "fst (attempts cfg env n s calls) = Succeeded \<Longrightarrow>
   status (fst (snd (attempts cfg env n s calls))) = STREAMING
   \<and> reconnect_attempts (fst (snd (attempts cfg env n s calls))) = 0
   \<and> snd (snd (attempts cfg env n s calls)) \<noteq> []"
  by (induction n s calls rule: attempts_induct [where env = env and cfg = cfg])
     (simp_all add: mark_streaming_def)

lemma attempts_succeeded_returned:
  "length calls + 1 = n \<Longrightarrow> fst (attempts cfg env n s calls) = Succeeded \<Longrightarrow>
   start_stream_func env (length (snd (snd (attempts cfg env n s calls))))
     (chat_id s) (url (source s)) (profile s) = Returned ()"
  by (induction n s calls rule: attempts_induct [where env = env and cfg = cfg]) auto

lemma attempts_returned_is_last:
  "length calls + 1 = n \<Longrightarrow> n \<le> k \<Longrightarrow>
   k \<le> length (snd (snd (attempts cfg env n s calls))) \<Longrightarrow>
   start_stream_func env k (chat_id s) (url (source s)) (profile s) = Returned () \<Longrightarrow>
   k = length (snd (snd (attempts cfg env n s calls)))
   \<and> fst (attempts cfg env n s calls) = Succeeded"
proof (induction n s calls rule: attempts_induct [where env = env and cfg = cfg])
  case (retry n s calls x res)
  from retry.prems retry.hyps(2) have "k \<noteq> n" by auto
  with retry.prems have "Suc n \<le> k" by simp
  with retry show ?case by simp
qed auto

text \<open>
  With any start function: every call the loop makes has the session's own chat id,
  source url and profile as arguments; an attempt whose call returns is the last one,
  the loop ends with success, and the same session has status \<open>STREAMING\<close> and
  \<open>reconnect_attempts\<close> 0. The loop body is written for a start function that can
  return.
\<close>

lemma reconnect_loop_any_start_function:
  assumes "reconnect_loop cfg env mgr s = (ex, mgr', s', calls)"
  shows "list_all (\<lambda>c. c = (chat_id s, url (source s), profile s)) calls
         \<and> (\<forall>k. 1 \<le> k \<and> k \<le> length calls
                 \<and> start_stream_func env k (chat_id s) (url (source s)) (profile s) = Returned ()
               \<longrightarrow> k = length calls \<and> ex = Succeeded)
         \<and> (ex = Succeeded \<longrightarrow>
               status s' = STREAMING \<and> reconnect_attempts s' = 0
               \<and> session_id s' = session_id s \<and> chat_id s' = chat_id s
               \<and> source s' = source s \<and> profile s' = profile s
               \<and> calls \<noteq> []
               \<and> start_stream_func env (length calls) (chat_id s) (url (source s)) (profile s)
                   = Returned ())"
proof -
  let ?s0 = "mark_reconnecting (now_at env 0) s"
  let ?run = "attempts cfg env 1 ?s0 []"
  let ?c = "(chat_id s, url (source s), profile s)"
  from assms have ex: "ex = fst ?run" and s': "s' = loop_except ex (fst (snd ?run))"
    and calls: "calls = snd (snd ?run)"
    by (auto simp: reconnect_loop_def split: prod.splits)
  from attempts_calls [of cfg env 1 ?s0 "[]"] obtain m where "calls = replicate m ?c"
    unfolding calls by auto
  then have all_same: "list_all (\<lambda>c. c = ?c) calls"
    by (simp add: list_all_iff)
  have last: "k = length calls \<and> ex = Succeeded"
    if "1 \<le> k" and "k \<le> length calls"
      and "start_stream_func env k (chat_id s) (url (source s)) (profile s) = Returned ()" for k
    using attempts_returned_is_last [of "[]" 1 k cfg env ?s0] that
    unfolding ex calls by simp
  have marked: "status s' = STREAMING \<and> reconnect_attempts s' = 0
               \<and> session_id s' = session_id s \<and> chat_id s' = chat_id s
               \<and> source s' = source s \<and> profile s' = profile s
               \<and> calls \<noteq> []
               \<and> start_stream_func env (length calls) (chat_id s) (url (source s)) (profile s)
                   = Returned ()" if "ex = Succeeded"
  proof -
    from that have run: "fst ?run = Succeeded" by (simp add: ex)
    from that s' have same: "s' = fst (snd ?run)" by simp
    from attempts_succeeded [OF run] attempts_session_fixed [of cfg env 1 ?s0 "[]"]
      attempts_succeeded_returned [of "[]" 1 cfg env ?s0, OF _ run]
    show ?thesis unfolding same calls by simp
  qed
  from all_same last marked show ?thesis by blast
qed

text \<open>
  With a stand-in start function whose first call fails on a connection error and whose
  second call returns (as the mock of the test suite returns), the loop calls it twice
  for chat 7 with the url and profile of \<open>session0\<close> and leaves the session
  streaming with no reconnect attempts.
\<close>

lemma reconnect_loop_stand_in_start_function:
  "reconnect_loop settings0 loop_env0 manager0 session0
     = (Succeeded, manager0,
        session0\<lparr>started_at := Some 4000000, last_reconnect_at := Some 3000002\<rparr>,
        [(7, ''https://x/live/a.m3u8'', ''720p''), (7, ''https://x/live/a.m3u8'', ''720p'')])
   \<and> start_stream_func loop_env0 1 7 ''https://x/live/a.m3u8'' ''720p''
       = Raised (Exc StreamConnectionError ''Failed to start stream: timeout'')
   \<and> start_stream_func loop_env0 2 7 ''https://x/live/a.m3u8'' ''720p'' = Returned ()
   \<and> status (session0\<lparr>started_at := Some 4000000, last_reconnect_at := Some 3000002\<rparr>)
       = STREAMING
   \<and> reconnect_attempts (session0\<lparr>started_at := Some 4000000, last_reconnect_at := Some 3000002\<rparr>)
       = 0"
proof -
  have run: "reconnect_loop settings0 loop_env0 manager0 session0
     = (Succeeded, manager0,
        session0\<lparr>started_at := Some 4000000, last_reconnect_at := Some 3000002\<rparr>,
        [(7, ''https://x/live/a.m3u8'', ''720p''), (7, ''https://x/live/a.m3u8'', ''720p'')])"
    by (simp add: reconnect_loop_def attempts.simps begin_attempt_def settings0_def
          loop_env0_def manager0_def session0_def mark_reconnecting_def mark_streaming_def
          retry_if_exception_type_def stop_retrying_def loop_finally_def py_contains_def)
  have first: "start_stream_func loop_env0 1 7 ''https://x/live/a.m3u8'' ''720p''
       = Raised (Exc StreamConnectionError ''Failed to start stream: timeout'')"
    and second: "start_stream_func loop_env0 2 7 ''https://x/live/a.m3u8'' ''720p'' = Returned ()"
    by (simp_all add: loop_env0_def)
  from reconnect_loop_any_start_function [OF run] run first second
  show ?thesis by (simp add: session0_def)
qed

section \<open>The reconnection loop on the registry's start pathway\<close>

text \<open>
  Called with a plain \<open>str\<close> as profile, \<open>start_stream\<close> returns no session, and
  where it stops at one of its checks it does what \<open>start_stream\<close> does for every
  profile.
\<close>

lemma start_stream_str_profile_raises:
  "\<exists>x. fst (start_stream_str_profile e st ci u p) = Inl x"
  by (simp add: start_stream_str_profile_def split: prod.splits sum.splits)

lemma start_stream_str_profile_checks:
  assumes "fst (start_stream_str_profile e st ci u p)
             \<noteq> Inl (Exc AttributeError (str_has_no_attribute ''value''))"
  shows "start_stream e st ci u prof = start_stream_str_profile e st ci u p"
  using assms
  by (simp add: start_stream_str_profile_def start_stream_def split: prod.splits sum.splits
        if_splits)


text \<open>A loop whose start function never returns never ends with success.\<close>

lemma attempts_never_returned:
  assumes "\<And>n c u p r. start_stream_func env n c u p \<noteq> Returned r"
  shows "fst (attempts cfg env n s calls) \<noteq> Succeeded"
  by (induction n s calls rule: attempts_induct [where env = env and cfg = cfg])
     (simp_all add: assms)

lemma attempts_status_kept:
  "fst (attempts cfg env n s calls) \<noteq> Succeeded \<Longrightarrow>
   status (fst (snd (attempts cfg env n s calls))) = status s"
  by (induction n s calls rule: attempts_induct [where env = env and cfg = cfg])
     (simp_all add: begin_attempt_def)

lemma reconnect_loop_via_registry_fails:
  "fst (reconnect_loop cfg (wired_to_registry e st k env) mgr s) \<noteq> Succeeded
   \<and> status (fst (snd (snd (reconnect_loop cfg (wired_to_registry e st k env) mgr s))))
       \<noteq> STREAMING"
proof -
  let ?env = "wired_to_registry e st k env"
  let ?s0 = "mark_reconnecting (now_at ?env 0) s"
  let ?run = "attempts cfg ?env 1 ?s0 []"
  have never: "start_stream_func ?env n c u p \<noteq> Returned r" for n c u p r
    using start_stream_str_profile_raises
            [of e "registry_at_attempt env st k n" "ChatInt c" u p]
    by (auto simp: wired_to_registry_def registry_start_stream_func_def)
  then have failed: "fst ?run \<noteq> Succeeded" by (rule attempts_never_returned)
  then have "status (fst (snd ?run)) = RECONNECTING"
    by (simp add: attempts_status_kept mark_reconnecting_def)
  then have "status (loop_except (fst ?run) (fst (snd ?run))) \<noteq> STREAMING"
    by (cases "fst ?run") (simp_all add: mark_error_def)
  with failed show ?thesis
    by (cases ?run) (simp add: reconnect_loop_def)
qed


section \<open>Cancelling a reconnection\<close>

text \<open>
  However the loop ends (success, exhaustion, another error, cancellation), no task is
  recorded for its session afterwards.
\<close>

lemma reconnect_loop_removes_task:
  "\<not> is_reconnecting (fst (snd (reconnect_loop cfg env mgr s))) (session_id s)"
  by (simp add: reconnect_loop_def is_reconnecting_def loop_finally_def py_contains_def
        delete_conv' split: prod.splits)

lemma cancel_reconnection_absent:
  "\<not> is_reconnecting mgr sid \<Longrightarrow> cancel_reconnection mgr sid = (Inr False, mgr)"
  by (simp add: cancel_reconnection_def is_reconnecting_def)

lemma cancel_reconnection_suspended:
  assumes "map_of (rm_reconnect_tasks mgr) sid = Some t"
      and "coro_state t = Suspended" and "coro_session_id t = sid"
  shows "cancel_reconnection mgr sid =
           (Inl (key_error sid),
            mgr\<lparr>rm_reconnect_tasks := AList.delete sid (rm_reconnect_tasks mgr)\<rparr>)"
  using assms
  by (simp add: cancel_reconnection_def py_contains_def py_getitem_def py_delitem_def
        await_cancelled_def loop_finally_def delete_conv' Let_def)

lemma cancel_reconnection_created:
  assumes "map_of (rm_reconnect_tasks mgr) sid = Some t" and "coro_state t = Created"
  shows "cancel_reconnection mgr sid =
           (Inr True, mgr\<lparr>rm_reconnect_tasks := AList.delete sid (rm_reconnect_tasks mgr)\<rparr>)"
  using assms
  by (simp add: cancel_reconnection_def py_contains_def py_getitem_def py_delitem_def
        await_cancelled_def Let_def)

text \<open>
  C5 (what the code does). The claim is that \<open>cancel_reconnection\<close> returns true
  without raising when a loop is running for the id. Take the manager after
  \<open>handle_disconnect\<close> has launched the loop of \<open>session0\<close> and the loop has reached
  its first await. The id is reconnecting, and \<open>cancel_reconnection\<close> raises
  \<open>KeyError\<close>: the cancelled loop has removed its own entry in its \<open>finally\<close>
  clause before \<open>cancel_reconnection\<close> deletes the entry again.
\<close>

theorem cancel_reconnection_running_raises:
  "is_reconnecting
     (task_first_step (fst (handle_disconnect settings0 manager0 session0 None)) ''1b9d6bcd'')
     ''1b9d6bcd''
   \<and> cancel_reconnection
       (task_first_step (fst (handle_disconnect settings0 manager0 session0 None)) ''1b9d6bcd'')
       ''1b9d6bcd''
     = (Inl (key_error ''1b9d6bcd''), manager0)"
  by (simp add: handle_disconnect_def task_first_step_def settings0_def manager0_def
        session0_def is_reconnecting_def cancel_reconnection_def py_contains_def
        py_getitem_def py_delitem_def await_cancelled_def loop_finally_def Let_def)

end
